theory Spec2Isabelle
  imports Complex_Main "HOL-Library.Word"
begin

section \<open>The forward renderer of fizzle (forward\_renderer.go)\<close>

text \<open>
  A shallow embedding of \<^verbatim>\<open>forward_renderer.go\<close>: the lights and their shadow maps, the
  renderer's light bookkeeping, the shadow-pass calls and the draw traversal. Go's
  mutation through pointers is explicit state passing here; the graphics device
  \<^verbatim>\<open>gfx\<close> and the vector library \<^verbatim>\<open>mgl\<close> are collaborators outside the file and enter
  as a recording device and as a record of functions.
\<close>

subsection \<open>Scalars, vectors and matrices (package mgl32)\<close>

text \<open>
  A \<^verbatim>\<open>float32\<close> is represented by the real number it denotes. The file itself does no
  arithmetic on floats beyond writing literals and negating one: every computation
  is a call into \<^verbatim>\<open>mgl\<close>, and those functions are the fields of the record \<open>mgl\<close>, so
  that nothing below depends on how they round. \<^verbatim>\<open>Vec3\<close>, \<^verbatim>\<open>Vec4\<close> are Go arrays of 3 and
  4 floats; a \<^verbatim>\<open>Mat4\<close> is an array of 16 floats in column-major order, written as the
  list of its entries in storage order.
\<close>

type_synonym float32 = real
type_synonym int32 = "32 word"

datatype Vec3 = Vec3 float32 float32 float32
datatype Vec4 = Vec4 float32 float32 float32 float32
type_synonym Mat4 = "float32 list"

record mgl =
  Add :: "Vec3 \<Rightarrow> Vec3 \<Rightarrow> Vec3"
  LookAtV :: "Vec3 \<Rightarrow> Vec3 \<Rightarrow> Vec3 \<Rightarrow> Mat4"
  Mul4 :: "Mat4 \<Rightarrow> Mat4 \<Rightarrow> Mat4"
  Frustum :: "float32 \<Rightarrow> float32 \<Rightarrow> float32 \<Rightarrow> float32 \<Rightarrow> float32 \<Rightarrow> float32 \<Rightarrow> Mat4"
  Ident4 :: Mat4

definition MaxForwardLights :: nat where
  "MaxForwardLights = 4"

definition shadowBiasMat :: Mat4 where
  "shadowBiasMat =
     [0.5, 0.0, 0.0, 0.0,
      0.0, 0.5, 0.0, 0.0,
      0.0, 0.0, 0.5, 0.0,
      0.5, 0.5, 0.5, 1.0]"

subsection \<open>Scene-tree nodes\<close>

text \<open>
  Modelled from the spec: the declarations of \<^verbatim>\<open>Renderable\<close>, \<^verbatim>\<open>RenderableCore\<close>,
  \<^verbatim>\<open>RenderShader\<close> and \<^verbatim>\<open>RenderBinder\<close> are in other files of the repository. The
  renderer reads \<^verbatim>\<open>IsVisible\<close>, \<^verbatim>\<open>IsGroup\<close>, \<^verbatim>\<open>Children\<close> and \<^verbatim>\<open>Core.Shader\<close> of a
  node; the spec (section 3) gives a node a visibility flag, an is-group flag, the
  list of its children in draw order and a drawable core, and makes the nodes a tree
  (no sharing, no cycles). Shaders and binders are opaque handles.
\<close>

type_synonym RenderShader = nat
type_synonym RenderBinder = nat

datatype RenderableCore = RenderableCore (Shader: RenderShader)

datatype Renderable =
  Renderable (IsVisible: bool) (IsGroup: bool) (Children: "Renderable list") (Core: RenderableCore)

subsection \<open>The graphics device (package graphicsprovider)\<close>

text \<open>
  Modelled from the spec: the interface behind \<^verbatim>\<open>gfx\<close> (package graphicsprovider) and
  the devices that implement it are outside \<^verbatim>\<open>forward_renderer.go\<close>. Section 6 lists what
  the renderer asks of the device (textures, framebuffers, clear, viewport, culling and
  polygon-offset state, draw submission) and section 8 tests the renderer against a mock
  device that counts calls. The device here records: every call is appended to the log
  \<open>calls\<close> with its arguments, the handles that \<^verbatim>\<open>GenTexture\<close> and
  \<^verbatim>\<open>GenFramebuffer\<close> return are taken from an arbitrary sequence \<open>handles\<close>, and
  the three pieces of pipeline state the renderer toggles (culling direction, enabled
  capabilities, framebuffer binding) are tracked as the last value set.
  \<^verbatim>\<open>graphics.Texture\<close> and \<^verbatim>\<open>graphics.Buffer\<close> are 32-bit handles, 0 for none; the
  constants of the package are the constructors of \<open>GLenum\<close>.
\<close>

type_synonym Texture = "32 word"
type_synonym Buffer = "32 word"

datatype GLenum =
    TEXTURE0 | TEXTURE_2D | DEPTH_COMPONENT32 | DEPTH_COMPONENT | UNSIGNED_INT
  | TEXTURE_MAG_FILTER | TEXTURE_MIN_FILTER | LINEAR | TEXTURE_BORDER_COLOR
  | TEXTURE_WRAP_S | TEXTURE_WRAP_T | CLAMP_TO_BORDER | TEXTURE_COMPARE_MODE
  | COMPARE_REF_TO_TEXTURE | FRAMEBUFFER | NONE | POLYGON_OFFSET_FILL | CULL_FACE
  | FRONT | BACK | DEPTH_ATTACHMENT | DEPTH_BUFFER_BIT | TRIANGLES | LINES

text \<open>
  One entry of the log per call, with the arguments of the call. \<^verbatim>\<open>TexImage2D\<close> is
  always given a nil data pointer, which is left out; \<^verbatim>\<open>TexParameterfv\<close> is given the
  address of a four-float array, recorded as the array. \<open>GenTexture\<close> and
  \<open>GenFramebuffer\<close> record the handle returned. \<open>DrawCall\<close> is the draw
  submission of \<^verbatim>\<open>bindAndDraw\<close>; it carries the node, the shader, the binder, both
  matrices and the primitive topology.
\<close>

datatype call =
    DeleteTexture Texture
  | GenTexture Texture
  | ActiveTexture GLenum
  | BindTexture GLenum Texture
  | TexImage2D GLenum int32 GLenum int32 int32 int32 GLenum GLenum
  | TexParameteri GLenum GLenum GLenum
  | TexParameterfv GLenum GLenum Vec4
  | GenFramebuffer Buffer
  | BindFramebuffer GLenum Buffer
  | DrawBuffers "GLenum list"
  | ReadBuffer GLenum
  | Enable GLenum
  | Disable GLenum
  | PolygonOffset float32 float32
  | CullFace GLenum
  | FramebufferTexture2D GLenum GLenum GLenum Texture int32
  | Clear GLenum
  | Viewport int32 int32 int32 int32
  | DrawCall Renderable RenderShader RenderBinder Mat4 Mat4 GLenum

record device =
  calls :: "call list"
  handles :: "nat \<Rightarrow> 32 word"
  generated :: nat
  cull_face_mode :: GLenum
  enabled :: "GLenum \<Rightarrow> bool"
  framebuffer_binding :: Buffer

definition record_call :: "call \<Rightarrow> device \<Rightarrow> device" where
  "record_call c d = d\<lparr>calls := calls d @ [c]\<rparr>"

definition gfx_GenTexture :: "device \<Rightarrow> Texture \<times> device" where
  "gfx_GenTexture d =
     (let t = handles d (generated d)
      in (t, record_call (GenTexture t) (d\<lparr>generated := generated d + 1\<rparr>)))"

definition gfx_GenFramebuffer :: "device \<Rightarrow> Buffer \<times> device" where
  "gfx_GenFramebuffer d =
     (let b = handles d (generated d)
      in (b, record_call (GenFramebuffer b) (d\<lparr>generated := generated d + 1\<rparr>)))"

definition gfx_DeleteTexture :: "Texture \<Rightarrow> device \<Rightarrow> device" where
  "gfx_DeleteTexture t d = record_call (DeleteTexture t) d"

definition gfx_ActiveTexture :: "GLenum \<Rightarrow> device \<Rightarrow> device" where
  "gfx_ActiveTexture u d = record_call (ActiveTexture u) d"

definition gfx_BindTexture :: "GLenum \<Rightarrow> Texture \<Rightarrow> device \<Rightarrow> device" where
  "gfx_BindTexture target t d = record_call (BindTexture target t) d"

definition gfx_TexImage2D ::
  "GLenum \<Rightarrow> int32 \<Rightarrow> GLenum \<Rightarrow> int32 \<Rightarrow> int32 \<Rightarrow> int32 \<Rightarrow> GLenum \<Rightarrow> GLenum \<Rightarrow> device \<Rightarrow> device" where
  "gfx_TexImage2D target level intfmt w h border fmt ty d =
     record_call (TexImage2D target level intfmt w h border fmt ty) d"

definition gfx_TexParameteri :: "GLenum \<Rightarrow> GLenum \<Rightarrow> GLenum \<Rightarrow> device \<Rightarrow> device" where
  "gfx_TexParameteri target pname v d = record_call (TexParameteri target pname v) d"

definition gfx_TexParameterfv :: "GLenum \<Rightarrow> GLenum \<Rightarrow> Vec4 \<Rightarrow> device \<Rightarrow> device" where
  "gfx_TexParameterfv target pname v d = record_call (TexParameterfv target pname v) d"

definition gfx_BindFramebuffer :: "GLenum \<Rightarrow> Buffer \<Rightarrow> device \<Rightarrow> device" where
  "gfx_BindFramebuffer target b d =
     record_call (BindFramebuffer target b) (d\<lparr>framebuffer_binding := b\<rparr>)"

definition gfx_DrawBuffers :: "GLenum list \<Rightarrow> device \<Rightarrow> device" where
  "gfx_DrawBuffers bs d = record_call (DrawBuffers bs) d"

definition gfx_ReadBuffer :: "GLenum \<Rightarrow> device \<Rightarrow> device" where
  "gfx_ReadBuffer b d = record_call (ReadBuffer b) d"

definition gfx_Enable :: "GLenum \<Rightarrow> device \<Rightarrow> device" where
  "gfx_Enable cap d = record_call (Enable cap) (d\<lparr>enabled := (enabled d)(cap := True)\<rparr>)"

definition gfx_Disable :: "GLenum \<Rightarrow> device \<Rightarrow> device" where
  "gfx_Disable cap d = record_call (Disable cap) (d\<lparr>enabled := (enabled d)(cap := False)\<rparr>)"

definition gfx_PolygonOffset :: "float32 \<Rightarrow> float32 \<Rightarrow> device \<Rightarrow> device" where
  "gfx_PolygonOffset factor units d = record_call (PolygonOffset factor units) d"

definition gfx_CullFace :: "GLenum \<Rightarrow> device \<Rightarrow> device" where
  "gfx_CullFace mode d = record_call (CullFace mode) (d\<lparr>cull_face_mode := mode\<rparr>)"

definition gfx_FramebufferTexture2D ::
  "GLenum \<Rightarrow> GLenum \<Rightarrow> GLenum \<Rightarrow> Texture \<Rightarrow> int32 \<Rightarrow> device \<Rightarrow> device" where
  "gfx_FramebufferTexture2D target attachment textarget t level d =
     record_call (FramebufferTexture2D target attachment textarget t level) d"

definition gfx_Clear :: "GLenum \<Rightarrow> device \<Rightarrow> device" where
  "gfx_Clear bits d = record_call (Clear bits) d"

definition gfx_Viewport :: "int32 \<Rightarrow> int32 \<Rightarrow> int32 \<Rightarrow> int32 \<Rightarrow> device \<Rightarrow> device" where
  "gfx_Viewport x y w h d = record_call (Viewport x y w h) d"

text \<open>The calls issued between two states of the device.\<close>

definition issued :: "device \<Rightarrow> device \<Rightarrow> call list" where
  "issued d d' = drop (length (calls d)) (calls d')"

subsection \<open>Shadow maps and lights\<close>

record ShadowMap =
  Texture :: Texture
  TextureSize :: int32
  Direction :: Vec3
  Near :: float32
  Far :: float32
  Up :: Vec3
  Projection :: Mat4
  View :: Mat4
  ViewProjMatrix :: Mat4
  BiasedMatrix :: Mat4

text \<open>
  \<^verbatim>\<open>Light.ShadowMap\<close> is a \<^verbatim>\<open>*ShadowMap\<close>: \<open>None\<close> is the nil pointer. The file
  allocates the map in \<^verbatim>\<open>CreateShadowMap\<close> and reaches it only through its light, never
  copying the pointer, so the light holds the map by value.
\<close>

record Light =
  Position :: Vec3
  Direction :: Vec3
  DiffuseColor :: Vec4
  DiffuseIntensity :: float32
  AmbientIntensity :: float32
  Attenuation :: float32
  ShadowMap :: "ShadowMap option"

text \<open>
  \<^verbatim>\<open>NewShadowMap\<close>: \<^verbatim>\<open>new(ShadowMap)\<close> is the zero value of every field (a zero
  \<^verbatim>\<open>Mat4\<close> is sixteen zeros); then \<^verbatim>\<open>Up\<close>, \<^verbatim>\<open>Projection\<close> and \<^verbatim>\<open>View\<close> are set.
\<close>

definition NewShadowMap :: "mgl \<Rightarrow> ShadowMap" where
  "NewShadowMap m =
     \<lparr>Texture = 0, TextureSize = 0, Direction = Vec3 0 0 0, Near = 0, Far = 0,
      Up = Vec3 0.0 1.0 0.0, Projection = Ident4 m, View = Ident4 m,
      ViewProjMatrix = replicate 16 0, BiasedMatrix = replicate 16 0\<rparr>"

definition Destroy :: "ShadowMap \<Rightarrow> device \<Rightarrow> device" where
  "Destroy shady d = gfx_DeleteTexture (Texture shady) d"

definition NewLight :: Light where
  "NewLight =
     \<lparr>Position = Vec3 0 0 0, Direction = Vec3 0 0 0, DiffuseColor = Vec4 0 0 0 0,
      DiffuseIntensity = 0, AmbientIntensity = 0, Attenuation = 0, ShadowMap = None\<rparr>"

text \<open>
  \<^verbatim>\<open>CreateShadowMap\<close> has the receiver \<^verbatim>\<open>l *Light\<close>: it takes the light and the device
  and returns both as it leaves them.
\<close>

definition CreateShadowMap ::
  "mgl \<Rightarrow> int32 \<Rightarrow> float32 \<Rightarrow> float32 \<Rightarrow> Vec3 \<Rightarrow> Light \<Rightarrow> device \<Rightarrow> Light \<times> device" where
  "CreateShadowMap m textureSize near far dir l d =
     (let d0 = (case ShadowMap l of None \<Rightarrow> d | Some old \<Rightarrow> Destroy old d);
          sm0 = NewShadowMap m;
          sm1 = sm0\<lparr>Near := near, Far := far\<rparr>;
          factor = 0.5;
          sm2 = sm1\<lparr>Projection := Frustum m (- factor) factor (- factor) factor near far\<rparr>;
          sm3 = sm2\<lparr>TextureSize := textureSize, ShadowMap.Direction := dir\<rparr>;
          (t, d1) = gfx_GenTexture d0;
          sm4 = sm3\<lparr>Texture := t\<rparr>;
          d2 = gfx_ActiveTexture TEXTURE0 d1;
          d3 = gfx_BindTexture TEXTURE_2D (Texture sm4) d2;
          d4 = gfx_TexImage2D TEXTURE_2D 0 DEPTH_COMPONENT32 textureSize textureSize 0
                 DEPTH_COMPONENT UNSIGNED_INT d3;
          d5 = gfx_TexParameteri TEXTURE_2D TEXTURE_MAG_FILTER LINEAR d4;
          d6 = gfx_TexParameteri TEXTURE_2D TEXTURE_MIN_FILTER LINEAR d5;
          shadowmapBorder = Vec4 1.0 1.0 1.0 1.0;
          d7 = gfx_TexParameterfv TEXTURE_2D TEXTURE_BORDER_COLOR shadowmapBorder d6;
          d8 = gfx_TexParameteri TEXTURE_2D TEXTURE_WRAP_S CLAMP_TO_BORDER d7;
          d9 = gfx_TexParameteri TEXTURE_2D TEXTURE_WRAP_T CLAMP_TO_BORDER d8;
          d10 = gfx_TexParameteri TEXTURE_2D TEXTURE_COMPARE_MODE COMPARE_REF_TO_TEXTURE d9;
          d11 = gfx_BindTexture TEXTURE_2D 0 d10
      in (l\<lparr>ShadowMap := Some sm4\<rparr>, d11))"

definition UpdateShadowMapData :: "mgl \<Rightarrow> Light \<Rightarrow> Light" where
  "UpdateShadowMapData m l =
     (case ShadowMap l of
        None \<Rightarrow> l
      | Some sm \<Rightarrow>
          (let target = Add m (Position l) (ShadowMap.Direction sm);
               sm1 = sm\<lparr>View := LookAtV m (Position l) target (Up sm)\<rparr>;
               sm2 = sm1\<lparr>ViewProjMatrix := Mul4 m (Projection sm1) (View sm1)\<rparr>;
               sm3 = sm2\<lparr>BiasedMatrix := Mul4 m shadowBiasMat (ViewProjMatrix sm2)\<rparr>
           in l\<lparr>ShadowMap := Some sm3\<rparr>))"

subsection \<open>The renderer\<close>

text \<open>
  A \<^verbatim>\<open>*Light\<close> is \<open>None\<close> (nil) or the address of a light; the lights live in a store
  \<open>lights\<close> from addresses to lights, which is total because a Go pointer that
  is not nil always points to an object. \<^verbatim>\<open>ActiveLights\<close> is an array of exactly
  \<^verbatim>\<open>MaxForwardLights = 4\<close> pointers: \<open>index4\<close> reads a slot, and the renderer
  indexes the array only under the loop guard \<^verbatim>\<open>i < MaxForwardLights\<close>; \<open>slots\<close>
  lists the four slots in order.
\<close>

type_synonym Light_ptr = "nat option"

datatype 'a array4 = Array4 'a 'a 'a 'a

fun index4 :: "'a array4 \<Rightarrow> nat \<Rightarrow> 'a" where
  "index4 (Array4 a b c d) i = (if i = 0 then a else if i = 1 then b else if i = 2 then c else d)"

fun slots :: "'a array4 \<Rightarrow> 'a list" where
  "slots (Array4 a b c d) = [a, b, c, d]"

record ForwardRenderer =
  ActiveLights :: "Light_ptr array4"
  width :: int32
  height :: int32
  shadowFBO :: Buffer
  currentShadowPassLight :: Light_ptr

text \<open>
  The state the renderer's methods work on: the renderer itself, the store of
  lights and the device.
\<close>

record world =
  renderer :: ForwardRenderer
  lights :: "nat \<Rightarrow> Light"
  gfx :: device

datatype error = Error string

datatype panic = NilPointerDereference

text \<open>
  \<^verbatim>\<open>NewForwardRenderer\<close>: \<^verbatim>\<open>new(ForwardRenderer)\<close>, every field at its zero value. The window,
  the UI manager, the resize callback and the frame time are not part of the model.
\<close>

definition NewForwardRenderer :: ForwardRenderer where
  "NewForwardRenderer =
     \<lparr>ActiveLights = Array4 None None None None, width = 0, height = 0, shadowFBO = 0,
      currentShadowPassLight = None\<rparr>"

definition GetResolution :: "ForwardRenderer \<Rightarrow> int32 \<times> int32" where
  "GetResolution fr = (width fr, height fr)"

text \<open>\<^verbatim>\<open>Init\<close> returns a Go \<^verbatim>\<open>error\<close>; \<open>None\<close> is \<^verbatim>\<open>nil\<close>.\<close>

definition Init :: "int32 \<Rightarrow> int32 \<Rightarrow> ForwardRenderer \<Rightarrow> ForwardRenderer \<times> error option" where
  "Init w h fr = (fr\<lparr>width := w, height := h\<rparr>, None)"

text \<open>
  The two counting loops, \<^verbatim>\<open>for i := 0; i < MaxForwardLights; i++\<close>, as recursion on
  the loop variable.
\<close>

function GetActiveLightCount_loop :: "ForwardRenderer \<Rightarrow> nat \<Rightarrow> nat" where
  "GetActiveLightCount_loop fr i =
     (if i < MaxForwardLights then
        (if index4 (ActiveLights fr) i = None then i
         else GetActiveLightCount_loop fr (i + 1))
      else MaxForwardLights)"
  by pat_completeness auto
termination
  by (relation "measure (\<lambda>(fr, i). MaxForwardLights - i)") auto

declare GetActiveLightCount_loop.simps [simp del]

definition GetActiveLightCount :: "ForwardRenderer \<Rightarrow> nat" where
  "GetActiveLightCount fr = GetActiveLightCount_loop fr 0"

text \<open>
  \<^verbatim>\<open>fr.ActiveLights[i] == nil || fr.ActiveLights[i].ShadowMap == nil\<close>: the second test
  reads the light behind the pointer and is evaluated only when the pointer is not nil.
\<close>

function GetActiveShadowLightCount_loop :: "(nat \<Rightarrow> Light) \<Rightarrow> ForwardRenderer \<Rightarrow> nat \<Rightarrow> nat" where
  "GetActiveShadowLightCount_loop ls fr i =
     (if i < MaxForwardLights then
        (case index4 (ActiveLights fr) i of
           None \<Rightarrow> i
         | Some p \<Rightarrow>
             if ShadowMap (ls p) = None then i
             else GetActiveShadowLightCount_loop ls fr (i + 1))
      else MaxForwardLights)"
  by pat_completeness auto
termination
  by (relation "measure (\<lambda>(ls, fr, i). MaxForwardLights - i)") auto

declare GetActiveShadowLightCount_loop.simps [simp del]

definition GetActiveShadowLightCount :: "(nat \<Rightarrow> Light) \<Rightarrow> ForwardRenderer \<Rightarrow> nat" where
  "GetActiveShadowLightCount ls fr = GetActiveShadowLightCount_loop ls fr 0"

subsection \<open>The shadow pass\<close>

definition SetupShadowMapRendering :: "world \<Rightarrow> world" where
  "SetupShadowMapRendering w =
     (let (fbo, d1) = gfx_GenFramebuffer (gfx w);
          d2 = gfx_BindFramebuffer FRAMEBUFFER fbo d1;
          drawBuffers = [NONE];
          d3 = gfx_DrawBuffers drawBuffers d2;
          d4 = gfx_ReadBuffer NONE d3;
          d5 = gfx_BindFramebuffer FRAMEBUFFER 0 d4
      in w\<lparr>renderer := (renderer w)\<lparr>shadowFBO := fbo\<rparr>, gfx := d5\<rparr>)"

definition StartShadowMapping :: "world \<Rightarrow> world" where
  "StartShadowMapping w =
     (let d1 = gfx_BindFramebuffer FRAMEBUFFER (shadowFBO (renderer w)) (gfx w);
          d2 = gfx_Enable POLYGON_OFFSET_FILL d1;
          d3 = gfx_PolygonOffset 4.0 4.0 d2;
          d4 = gfx_Enable CULL_FACE d3;
          d5 = gfx_CullFace FRONT d4
      in w\<lparr>renderer := (renderer w)\<lparr>currentShadowPassLight := None\<rparr>, gfx := d5\<rparr>)"

definition EndShadowMapping :: "world \<Rightarrow> world" where
  "EndShadowMapping w =
     (let d1 = gfx_CullFace BACK (gfx w);
          d2 = gfx_Disable CULL_FACE d1;
          d3 = gfx_Disable POLYGON_OFFSET_FILL d2;
          d4 = gfx_BindFramebuffer FRAMEBUFFER 0 d3
      in w\<lparr>renderer := (renderer w)\<lparr>currentShadowPassLight := None\<rparr>, gfx := d4\<rparr>)"

text \<open>
  \<^verbatim>\<open>EnableShadowMappingLight\<close> has no check of its argument. The assignment to
  \<^verbatim>\<open>fr.currentShadowPassLight\<close> comes first; \<^verbatim>\<open>l.UpdateShadowMapData()\<close> reads
  \<^verbatim>\<open>l.ShadowMap\<close> and so panics on a nil \<^verbatim>\<open>l\<close>; the arguments of
  \<^verbatim>\<open>gfx.FramebufferTexture2D\<close> are evaluated before the call, and
  \<^verbatim>\<open>l.ShadowMap.Texture\<close> panics on a nil \<^verbatim>\<open>ShadowMap\<close>. A panic is \<open>Inl\<close>, with
  the state as the panic leaves it; a normal return is \<open>Inr\<close>.
\<close>

definition EnableShadowMappingLight :: "mgl \<Rightarrow> Light_ptr \<Rightarrow> world \<Rightarrow> (panic \<times> world) + world" where
  "EnableShadowMappingLight m l w =
     (let w1 = w\<lparr>renderer := (renderer w)\<lparr>currentShadowPassLight := l\<rparr>\<rparr>
      in case l of
           None \<Rightarrow> Inl (NilPointerDereference, w1)
         | Some p \<Rightarrow>
             (let w2 = w1\<lparr>lights := (lights w1)(p := UpdateShadowMapData m (lights w1 p))\<rparr>
              in case ShadowMap (lights w2 p) of
                   None \<Rightarrow> Inl (NilPointerDereference, w2)
                 | Some sm \<Rightarrow>
                     (let d1 = gfx_FramebufferTexture2D FRAMEBUFFER DEPTH_ATTACHMENT TEXTURE_2D
                                 (Texture sm) 0 (gfx w2);
                          d2 = gfx_Clear DEPTH_BUFFER_BIT d1;
                          d3 = gfx_Viewport 0 0 (TextureSize sm) (TextureSize sm) d2
                      in Inr (w2\<lparr>gfx := d3\<rparr>))))"

subsection \<open>The draw traversal\<close>

text \<open>
  Modelled from the spec: \<^verbatim>\<open>bindAndDraw\<close> is defined in another file of the
  repository. Section 4.5, step 3: it binds the chosen shader, invokes the external
  binder and issues one draw call with the given primitive topology. The model
  records that draw call, with every argument \<^verbatim>\<open>bindAndDraw\<close> was given.
\<close>

definition bindAndDraw ::
  "Renderable \<Rightarrow> RenderShader \<Rightarrow> RenderBinder \<Rightarrow> Mat4 \<Rightarrow> Mat4 \<Rightarrow> GLenum \<Rightarrow> world \<Rightarrow> world" where
  "bindAndDraw r shader binder perspective view mode w =
     w\<lparr>gfx := record_call (DrawCall r shader binder perspective view mode) (gfx w)\<rparr>"

text \<open>
  Each traversal is mutually recursive with its loop \<^verbatim>\<open>for _, child := range r.Children\<close>.
\<close>

fun DrawRenderable :: "Renderable \<Rightarrow> RenderBinder \<Rightarrow> Mat4 \<Rightarrow> Mat4 \<Rightarrow> world \<Rightarrow> world"
  and DrawRenderable_range :: "Renderable list \<Rightarrow> RenderBinder \<Rightarrow> Mat4 \<Rightarrow> Mat4 \<Rightarrow> world \<Rightarrow> world" where
  "DrawRenderable (Renderable visible grp children core) binder perspective view w =
     (if \<not> visible then w
      else if grp then DrawRenderable_range children binder perspective view w
      else bindAndDraw (Renderable visible grp children core) (Shader core) binder
             perspective view TRIANGLES w)"
| "DrawRenderable_range [] binder perspective view w = w"
| "DrawRenderable_range (child # rest) binder perspective view w =
     DrawRenderable_range rest binder perspective view
       (DrawRenderable child binder perspective view w)"

fun DrawRenderableWithShader ::
    "Renderable \<Rightarrow> RenderShader \<Rightarrow> RenderBinder \<Rightarrow> Mat4 \<Rightarrow> Mat4 \<Rightarrow> world \<Rightarrow> world"
  and DrawRenderableWithShader_range ::
    "Renderable list \<Rightarrow> RenderShader \<Rightarrow> RenderBinder \<Rightarrow> Mat4 \<Rightarrow> Mat4 \<Rightarrow> world \<Rightarrow> world" where
  "DrawRenderableWithShader (Renderable visible grp children core) shader binder perspective view w =
     (if \<not> visible then w
      else if grp then DrawRenderableWithShader_range children shader binder perspective view w
      else bindAndDraw (Renderable visible grp children core) shader binder
             perspective view TRIANGLES w)"
| "DrawRenderableWithShader_range [] shader binder perspective view w = w"
| "DrawRenderableWithShader_range (child # rest) shader binder perspective view w =
     DrawRenderableWithShader_range rest shader binder perspective view
       (DrawRenderableWithShader child shader binder perspective view w)"

fun DrawLines ::
    "Renderable \<Rightarrow> RenderShader \<Rightarrow> RenderBinder \<Rightarrow> Mat4 \<Rightarrow> Mat4 \<Rightarrow> world \<Rightarrow> world"
  and DrawLines_range ::
    "Renderable list \<Rightarrow> RenderShader \<Rightarrow> RenderBinder \<Rightarrow> Mat4 \<Rightarrow> Mat4 \<Rightarrow> world \<Rightarrow> world" where
  "DrawLines (Renderable visible grp children core) shader binder perspective view w =
     (if \<not> visible then w
      else if grp then DrawLines_range children shader binder perspective view w
      else bindAndDraw (Renderable visible grp children core) shader binder
             perspective view LINES w)"
| "DrawLines_range [] shader binder perspective view w = w"
| "DrawLines_range (child # rest) shader binder perspective view w =
     DrawLines_range rest shader binder perspective view
       (DrawLines child shader binder perspective view w)"

subsection \<open>Vocabulary of the properties\<close>

text \<open>A slot stops the shadow count when it is nil or its light has no shadow map.\<close>

definition lacks_shadow :: "(nat \<Rightarrow> Light) \<Rightarrow> Light_ptr \<Rightarrow> bool" where
  "lacks_shadow ls l = (case l of None \<Rightarrow> True | Some p \<Rightarrow> ShadowMap (ls p) = None)"

fun is_DeleteTexture :: "call \<Rightarrow> bool" where
  "is_DeleteTexture (DeleteTexture t) = True"
| "is_DeleteTexture c = False"

fun is_GenTexture :: "call \<Rightarrow> bool" where
  "is_GenTexture (GenTexture t) = True"
| "is_GenTexture c = False"

fun is_FramebufferTexture2D :: "call \<Rightarrow> bool" where
  "is_FramebufferTexture2D (FramebufferTexture2D target attachment textarget t level) = True"
| "is_FramebufferTexture2D c = False"

fun is_DrawCall :: "call \<Rightarrow> bool" where
  "is_DrawCall (DrawCall r shader binder perspective view mode) = True"
| "is_DrawCall c = False"

text \<open>
  A client's draw between two shadow-pass calls: any of the three traversals, on any
  tree.
\<close>

datatype draw =
    Draw Renderable RenderBinder Mat4 Mat4
  | DrawWithShader Renderable RenderShader RenderBinder Mat4 Mat4
  | Lines Renderable RenderShader RenderBinder Mat4 Mat4

fun run_draw :: "draw \<Rightarrow> world \<Rightarrow> world" where
  "run_draw (Draw r binder perspective view) w = DrawRenderable r binder perspective view w"
| "run_draw (DrawWithShader r shader binder perspective view) w =
     DrawRenderableWithShader r shader binder perspective view w"
| "run_draw (Lines r shader binder perspective view) w =
     DrawLines r shader binder perspective view w"

text \<open>
  The call sequence \<^verbatim>\<open>StartShadowMapping; EnableShadowMappingLight(L1); draw;
  EnableShadowMappingLight(L2); draw; EndShadowMapping\<close>. A panic ends the sequence
  where it happens, as it ends the Go program's call chain.
\<close>

definition shadow_pass ::
  "mgl \<Rightarrow> Light_ptr \<Rightarrow> draw list \<Rightarrow> Light_ptr \<Rightarrow> draw list \<Rightarrow> world \<Rightarrow> (panic \<times> world) + world" where
  "shadow_pass m L1 draws1 L2 draws2 w =
     (case EnableShadowMappingLight m L1 (StartShadowMapping w) of
        Inl e \<Rightarrow> Inl e
      | Inr w1 \<Rightarrow>
          (case EnableShadowMappingLight m L2 (fold run_draw draws1 w1) of
             Inl e \<Rightarrow> Inl e
           | Inr w2 \<Rightarrow> Inr (EndShadowMapping (fold run_draw draws2 w2))))"

text \<open>The homogeneous point of the bias transform: \<^verbatim>\<open>Mat4\<close> times \<^verbatim>\<open>Vec4\<close>, column-major,
  in exact arithmetic.\<close>

definition Mul4x1 :: "Mat4 \<Rightarrow> Vec4 \<Rightarrow> Vec4" where
  "Mul4x1 a v =
     (case v of Vec4 x y z w \<Rightarrow>
        Vec4 (a ! 0 * x + a ! 4 * y + a ! 8 * z + a ! 12 * w)
             (a ! 1 * x + a ! 5 * y + a ! 9 * z + a ! 13 * w)
             (a ! 2 * x + a ! 6 * y + a ! 10 * z + a ! 14 * w)
             (a ! 3 * x + a ! 7 * y + a ! 11 * z + a ! 15 * w))"

text \<open>
  The calls with which \<^verbatim>\<open>CreateShadowMap\<close> allocates and configures the depth texture
  \<open>t\<close> of edge \<open>textureSize\<close>, from \<^verbatim>\<open>GenTexture\<close> to the final unbind.
\<close>

definition texture_setup :: "Texture \<Rightarrow> int32 \<Rightarrow> call list" where
  "texture_setup t textureSize =
     [GenTexture t, ActiveTexture TEXTURE0, BindTexture TEXTURE_2D t,
      TexImage2D TEXTURE_2D 0 DEPTH_COMPONENT32 textureSize textureSize 0 DEPTH_COMPONENT
        UNSIGNED_INT,
      TexParameteri TEXTURE_2D TEXTURE_MAG_FILTER LINEAR,
      TexParameteri TEXTURE_2D TEXTURE_MIN_FILTER LINEAR,
      TexParameterfv TEXTURE_2D TEXTURE_BORDER_COLOR (Vec4 1 1 1 1),
      TexParameteri TEXTURE_2D TEXTURE_WRAP_S CLAMP_TO_BORDER,
      TexParameteri TEXTURE_2D TEXTURE_WRAP_T CLAMP_TO_BORDER,
      TexParameteri TEXTURE_2D TEXTURE_COMPARE_MODE COMPARE_REF_TO_TEXTURE,
      BindTexture TEXTURE_2D 0]"

text \<open>
  \<open>w'\<close> is \<open>w\<close> with draw calls appended to the log and nothing else changed: what
  a draw traversal does to the state.
\<close>

definition appends_draws :: "world \<Rightarrow> world \<Rightarrow> bool" where
  "appends_draws w w' =
     (\<exists>ds. list_all is_DrawCall ds \<and> w' = w\<lparr>gfx := (gfx w)\<lparr>calls := calls (gfx w) @ ds\<rparr>\<rparr>)"

subsection \<open>Concrete inputs\<close>

text \<open>
  An instance of the \<open>mgl\<close> interface in exact arithmetic (no rounding), a device
  with an empty log, and a world of lights without shadow maps. They instantiate the
  theorems at concrete inputs; no theorem assumes them.
\<close>

fun Vec3_Add :: "Vec3 \<Rightarrow> Vec3 \<Rightarrow> Vec3" where
  "Vec3_Add (Vec3 a b c) (Vec3 x y z) = Vec3 (a + x) (b + y) (c + z)"

fun Vec3_Sub :: "Vec3 \<Rightarrow> Vec3 \<Rightarrow> Vec3" where
  "Vec3_Sub (Vec3 a b c) (Vec3 x y z) = Vec3 (a - x) (b - y) (c - z)"

fun Vec3_Cross :: "Vec3 \<Rightarrow> Vec3 \<Rightarrow> Vec3" where
  "Vec3_Cross (Vec3 a b c) (Vec3 x y z) = Vec3 (b * z - c * y) (c * x - a * z) (a * y - b * x)"

fun Vec3_Normalize :: "Vec3 \<Rightarrow> Vec3" where
  "Vec3_Normalize (Vec3 a b c) =
     (let l = 1 / sqrt (a * a + b * b + c * c) in Vec3 (a * l) (b * l) (c * l))"

definition Mat4_Mul4 :: "Mat4 \<Rightarrow> Mat4 \<Rightarrow> Mat4" where
  "Mat4_Mul4 a b =
     concat (map (\<lambda>c. map (\<lambda>r. sum_list (map (\<lambda>k. a ! (k * 4 + r) * b ! (c * 4 + k)) [0..<4]))
                         [0..<4])
                 [0..<4])"

definition Mat4_Ident4 :: Mat4 where
  "Mat4_Ident4 = [1, 0, 0, 0, 0, 1, 0, 0, 0, 0, 1, 0, 0, 0, 0, 1]"

definition Translate3D :: "float32 \<Rightarrow> float32 \<Rightarrow> float32 \<Rightarrow> Mat4" where
  "Translate3D x y z = [1, 0, 0, 0, 0, 1, 0, 0, 0, 0, 1, 0, x, y, z, 1]"

fun Mat4_LookAtV :: "Vec3 \<Rightarrow> Vec3 \<Rightarrow> Vec3 \<Rightarrow> Mat4" where
  "Mat4_LookAtV (Vec3 ex ey ez) center up =
     (let f = Vec3_Normalize (Vec3_Sub center (Vec3 ex ey ez));
          s = Vec3_Normalize (Vec3_Cross f (Vec3_Normalize up));
          u = Vec3_Cross s f
      in case (f, s, u) of
           (Vec3 fx fy fz, Vec3 sx sy sz, Vec3 ux uy uz) \<Rightarrow>
             Mat4_Mul4 [sx, ux, - fx, 0, sy, uy, - fy, 0, sz, uz, - fz, 0, 0, 0, 0, 1]
               (Translate3D (- ex) (- ey) (- ez)))"

definition Mat4_Frustum ::
  "float32 \<Rightarrow> float32 \<Rightarrow> float32 \<Rightarrow> float32 \<Rightarrow> float32 \<Rightarrow> float32 \<Rightarrow> Mat4" where
  "Mat4_Frustum l r b t n f =
     (let rml = r - l; tmb = t - b; fmn = f - n
      in [2 * n / rml, 0, 0, 0,
          0, 2 * n / tmb, 0, 0,
          (r + l) / rml, (t + b) / tmb, - (f + n) / fmn, - 1,
          0, 0, - (2 * f * n) / fmn, 0])"

definition mgl_exact :: mgl where
  "mgl_exact =
     \<lparr>Add = Vec3_Add, LookAtV = Mat4_LookAtV, Mul4 = Mat4_Mul4, Frustum = Mat4_Frustum,
      Ident4 = Mat4_Ident4\<rparr>"

definition device0 :: device where
  "device0 =
     \<lparr>calls = [], handles = (\<lambda>n. of_nat n + 1), generated = 0, cull_face_mode = BACK,
      enabled = (\<lambda>cap. False), framebuffer_binding = 0\<rparr>"

definition world0 :: world where
  "world0 = \<lparr>renderer = NewForwardRenderer, lights = (\<lambda>p. NewLight), gfx = device0\<rparr>"

text \<open>
  A light at \<open>(0, 0, 5)\<close> whose shadow map has the texture \<open>t\<close>, of edge 1024,
  and looks down the negative z axis.
\<close>

definition shadow_light :: "Texture \<Rightarrow> Light" where
  "shadow_light t =
     NewLight\<lparr>Position := Vec3 0 0 5,
              ShadowMap := Some ((NewShadowMap mgl_exact)
                \<lparr>Texture := t, TextureSize := 1024, ShadowMap.Direction := Vec3 0 0 (- 1)\<rparr>)\<rparr>"

text \<open>
  A store in which the lights at the addresses 2 and 3 cast shadows (textures 7 and 9)
  and every other light does not.
\<close>

definition lights_example :: "nat \<Rightarrow> Light" where
  "lights_example = (\<lambda>p. NewLight)(2 := shadow_light 7, 3 := shadow_light 9)"

text \<open>
  The scene tree of the spec's example: a visible group holding the visible leaf A and
  an invisible group that holds the leaf B. The leaves differ in their shaders.
\<close>

definition leafA :: Renderable where
  "leafA = Renderable True False [] (RenderableCore 1)"

definition leafB :: Renderable where
  "leafB = Renderable True False [] (RenderableCore 2)"

definition scene :: Renderable where
  "scene =
     Renderable True True [leafA, Renderable False True [leafB] (RenderableCore 0)]
       (RenderableCore 0)"

text \<open>The world \<open>world0\<close> with the lights of \<open>lights_example\<close>.\<close>

definition world_example :: world where
  "world_example = world0\<lparr>lights := lights_example\<rparr>"


section \<open>Properties\<close>

subsection \<open>Counting the active lights\<close>

lemma GetActiveLightCount_loop_exit:
  "\<not> i < MaxForwardLights \<Longrightarrow> GetActiveLightCount_loop fr i = MaxForwardLights"
  by (simp add: GetActiveLightCount_loop.simps [of fr i])

lemma GetActiveLightCount_loop_nil:
  "i < MaxForwardLights \<Longrightarrow> index4 (ActiveLights fr) i = None \<Longrightarrow>
   GetActiveLightCount_loop fr i = i"
  by (simp add: GetActiveLightCount_loop.simps [of fr i])

lemma GetActiveLightCount_loop_next:
  "i < MaxForwardLights \<Longrightarrow> index4 (ActiveLights fr) i \<noteq> None \<Longrightarrow>
   GetActiveLightCount_loop fr i = GetActiveLightCount_loop fr (i + 1)"
  by (auto simp: GetActiveLightCount_loop.simps [of fr i])

lemma GetActiveShadowLightCount_loop_exit:
  "\<not> i < MaxForwardLights \<Longrightarrow> GetActiveShadowLightCount_loop ls fr i = MaxForwardLights"
  by (simp add: GetActiveShadowLightCount_loop.simps [of ls fr i])

lemma GetActiveShadowLightCount_loop_lacks:
  "i < MaxForwardLights \<Longrightarrow> lacks_shadow ls (index4 (ActiveLights fr) i) \<Longrightarrow>
   GetActiveShadowLightCount_loop ls fr i = i"
  by (simp add: GetActiveShadowLightCount_loop.simps [of ls fr i] lacks_shadow_def
      split: option.splits)

lemma GetActiveShadowLightCount_loop_next:
  "i < MaxForwardLights \<Longrightarrow> \<not> lacks_shadow ls (index4 (ActiveLights fr) i) \<Longrightarrow>
   GetActiveShadowLightCount_loop ls fr i = GetActiveShadowLightCount_loop ls fr (i + 1)"
  by (auto simp: GetActiveShadowLightCount_loop.simps [of ls fr i] lacks_shadow_def
      split: option.splits)

lemma GetActiveLightCount_loop_bounds:
  "i \<le> MaxForwardLights \<Longrightarrow>
   i \<le> GetActiveLightCount_loop fr i \<and> GetActiveLightCount_loop fr i \<le> MaxForwardLights"
proof (induction fr i rule: GetActiveLightCount_loop.induct)
  case (1 fr i)
  consider (exit) "\<not> i < MaxForwardLights"
    | (nil) "i < MaxForwardLights" "index4 (ActiveLights fr) i = None"
    | (step) "i < MaxForwardLights" "index4 (ActiveLights fr) i \<noteq> None"
    by blast
  then show ?case
  proof cases
    case exit
    then show ?thesis using "1.prems" by (simp add: GetActiveLightCount_loop_exit)
  next
    case nil
    then show ?thesis by (simp add: GetActiveLightCount_loop_nil)
  next
    case step
    then have "i + 1 \<le> GetActiveLightCount_loop fr (i + 1) \<and>
               GetActiveLightCount_loop fr (i + 1) \<le> MaxForwardLights"
      using "1.IH" by simp
    then show ?thesis using step by (simp add: GetActiveLightCount_loop_next)
  qed
qed

lemma GetActiveLightCount_loop_prefix:
  "i \<le> j \<Longrightarrow> j < GetActiveLightCount_loop fr i \<Longrightarrow> index4 (ActiveLights fr) j \<noteq> None"
proof (induction fr i rule: GetActiveLightCount_loop.induct)
  case (1 fr i)
  consider (exit) "\<not> i < MaxForwardLights"
    | (nil) "i < MaxForwardLights" "index4 (ActiveLights fr) i = None"
    | (step) "i < MaxForwardLights" "index4 (ActiveLights fr) i \<noteq> None"
    by blast
  then show ?case
  proof cases
    case exit
    then show ?thesis using "1.prems" by (simp add: GetActiveLightCount_loop_exit)
  next
    case nil
    then show ?thesis using "1.prems" by (simp add: GetActiveLightCount_loop_nil)
  next
    case step
    show ?thesis
    proof (cases "j = i")
      case True
      then show ?thesis using step by simp
    next
      case False
      then have "i + 1 \<le> j" using "1.prems" by simp
      moreover have "j < GetActiveLightCount_loop fr (i + 1)"
        using "1.prems" step by (simp add: GetActiveLightCount_loop_next)
      ultimately show ?thesis using "1.IH" step by simp
    qed
  qed
qed

lemma GetActiveLightCount_loop_stop:
  "GetActiveLightCount_loop fr i < MaxForwardLights \<Longrightarrow>
   index4 (ActiveLights fr) (GetActiveLightCount_loop fr i) = None"
proof (induction fr i rule: GetActiveLightCount_loop.induct)
  case (1 fr i)
  consider (exit) "\<not> i < MaxForwardLights"
    | (nil) "i < MaxForwardLights" "index4 (ActiveLights fr) i = None"
    | (step) "i < MaxForwardLights" "index4 (ActiveLights fr) i \<noteq> None"
    by blast
  then show ?case
  proof cases
    case exit
    then show ?thesis using "1.prems" by (simp add: GetActiveLightCount_loop_exit)
  next
    case nil
    then show ?thesis by (simp add: GetActiveLightCount_loop_nil)
  next
    case step
    then show ?thesis using "1.IH" "1.prems" by (simp add: GetActiveLightCount_loop_next)
  qed
qed

lemma GetActiveShadowLightCount_loop_bounds:
  "i \<le> MaxForwardLights \<Longrightarrow>
   i \<le> GetActiveShadowLightCount_loop ls fr i \<and>
   GetActiveShadowLightCount_loop ls fr i \<le> MaxForwardLights"
proof (induction ls fr i rule: GetActiveShadowLightCount_loop.induct)
  case (1 ls fr i)
  consider (exit) "\<not> i < MaxForwardLights"
    | (lacks) "i < MaxForwardLights" "lacks_shadow ls (index4 (ActiveLights fr) i)"
    | (step) "i < MaxForwardLights" "\<not> lacks_shadow ls (index4 (ActiveLights fr) i)"
    by blast
  then show ?case
  proof cases
    case exit
    then show ?thesis using "1.prems" by (simp add: GetActiveShadowLightCount_loop_exit)
  next
    case lacks
    then show ?thesis by (simp add: GetActiveShadowLightCount_loop_lacks)
  next
    case step
    then obtain p where p: "index4 (ActiveLights fr) i = Some p" "ShadowMap (ls p) \<noteq> None"
      by (auto simp: lacks_shadow_def split: option.splits)
    then have "i + 1 \<le> GetActiveShadowLightCount_loop ls fr (i + 1) \<and>
               GetActiveShadowLightCount_loop ls fr (i + 1) \<le> MaxForwardLights"
      using "1.IH" step by simp
    then show ?thesis using step by (simp add: GetActiveShadowLightCount_loop_next)
  qed
qed

lemma GetActiveShadowLightCount_loop_prefix:
  "i \<le> j \<Longrightarrow> j < GetActiveShadowLightCount_loop ls fr i \<Longrightarrow>
   \<not> lacks_shadow ls (index4 (ActiveLights fr) j)"
proof (induction ls fr i rule: GetActiveShadowLightCount_loop.induct)
  case (1 ls fr i)
  consider (exit) "\<not> i < MaxForwardLights"
    | (lacks) "i < MaxForwardLights" "lacks_shadow ls (index4 (ActiveLights fr) i)"
    | (step) "i < MaxForwardLights" "\<not> lacks_shadow ls (index4 (ActiveLights fr) i)"
    by blast
  then show ?case
  proof cases
    case exit
    then show ?thesis using "1.prems" by (simp add: GetActiveShadowLightCount_loop_exit)
  next
    case lacks
    then show ?thesis using "1.prems" by (simp add: GetActiveShadowLightCount_loop_lacks)
  next
    case step
    then obtain p where p: "index4 (ActiveLights fr) i = Some p" "ShadowMap (ls p) \<noteq> None"
      by (auto simp: lacks_shadow_def split: option.splits)
    show ?thesis
    proof (cases "j = i")
      case True
      then show ?thesis using step by simp
    next
      case False
      then have "i + 1 \<le> j" using "1.prems" by simp
      moreover have "j < GetActiveShadowLightCount_loop ls fr (i + 1)"
        using "1.prems" step by (simp add: GetActiveShadowLightCount_loop_next)
      ultimately show ?thesis using "1.IH" step p by simp
    qed
  qed
qed

lemma GetActiveShadowLightCount_loop_stop:
  "GetActiveShadowLightCount_loop ls fr i < MaxForwardLights \<Longrightarrow>
   lacks_shadow ls (index4 (ActiveLights fr) (GetActiveShadowLightCount_loop ls fr i))"
proof (induction ls fr i rule: GetActiveShadowLightCount_loop.induct)
  case (1 ls fr i)
  consider (exit) "\<not> i < MaxForwardLights"
    | (lacks) "i < MaxForwardLights" "lacks_shadow ls (index4 (ActiveLights fr) i)"
    | (step) "i < MaxForwardLights" "\<not> lacks_shadow ls (index4 (ActiveLights fr) i)"
    by blast
  then show ?case
  proof cases
    case exit
    then show ?thesis using "1.prems" by (simp add: GetActiveShadowLightCount_loop_exit)
  next
    case lacks
    then show ?thesis by (simp add: GetActiveShadowLightCount_loop_lacks)
  next
    case step
    then obtain p where p: "index4 (ActiveLights fr) i = Some p" "ShadowMap (ls p) \<noteq> None"
      by (auto simp: lacks_shadow_def split: option.splits)
    then show ?thesis using "1.IH" "1.prems" step
      by (simp add: GetActiveShadowLightCount_loop_next)
  qed
qed

lemma shadow_loop_le_light_loop:
  "i \<le> MaxForwardLights \<Longrightarrow>
   GetActiveShadowLightCount_loop ls fr i \<le> GetActiveLightCount_loop fr i"
proof (induction fr i rule: GetActiveLightCount_loop.induct)
  case (1 fr i)
  consider (exit) "\<not> i < MaxForwardLights"
    | (nil) "i < MaxForwardLights" "index4 (ActiveLights fr) i = None"
    | (noshadow) "i < MaxForwardLights" "index4 (ActiveLights fr) i \<noteq> None"
        "lacks_shadow ls (index4 (ActiveLights fr) i)"
    | (step) "i < MaxForwardLights" "index4 (ActiveLights fr) i \<noteq> None"
        "\<not> lacks_shadow ls (index4 (ActiveLights fr) i)"
    by blast
  then show ?case
  proof cases
    case exit
    then show ?thesis
      by (simp add: GetActiveShadowLightCount_loop_exit GetActiveLightCount_loop_exit)
  next
    case nil
    then have "lacks_shadow ls (index4 (ActiveLights fr) i)" by (simp add: lacks_shadow_def)
    then show ?thesis using nil
      by (simp add: GetActiveShadowLightCount_loop_lacks GetActiveLightCount_loop_nil)
  next
    case noshadow
    then have "GetActiveShadowLightCount_loop ls fr i = i"
      by (simp add: GetActiveShadowLightCount_loop_lacks)
    moreover have "i + 1 \<le> GetActiveLightCount_loop fr (i + 1)"
      using GetActiveLightCount_loop_bounds [of "i + 1" fr] noshadow by simp
    ultimately show ?thesis using noshadow by (simp add: GetActiveLightCount_loop_next)
  next
    case step
    then have "GetActiveShadowLightCount_loop ls fr (i + 1) \<le> GetActiveLightCount_loop fr (i + 1)"
      using "1.IH" by simp
    then show ?thesis using step
      by (simp add: GetActiveShadowLightCount_loop_next GetActiveLightCount_loop_next)
  qed
qed

text \<open>
  Claim C5. \<^verbatim>\<open>GetActiveLightCount\<close> returns the index of the first nil slot of the
  four-slot array \<^verbatim>\<open>ActiveLights\<close>, or 4 when no slot is nil: the length of the
  longest prefix of slots that are not nil. The result is at most 4,
  every slot before it holds a light, and when it is below 4 the slot at it is nil; a
  nil slot anywhere bounds the count, whatever follows it. It is 0 for the empty array,
  2 for \<open>[a, b, nil, nil]\<close> and 1 for \<open>[a, nil, c, nil]\<close>.
\<close>

theorem GetActiveLightCount_first_nil:
  "MaxForwardLights = 4
   \<and> GetActiveLightCount fr = length (takeWhile (\<lambda>l. l \<noteq> None) (slots (ActiveLights fr)))
   \<and> GetActiveLightCount fr \<le> MaxForwardLights
   \<and> (\<forall>j < GetActiveLightCount fr. index4 (ActiveLights fr) j \<noteq> None)
   \<and> (GetActiveLightCount fr < MaxForwardLights \<longrightarrow>
        index4 (ActiveLights fr) (GetActiveLightCount fr) = None)
   \<and> (\<forall>j < MaxForwardLights. index4 (ActiveLights fr) j = None \<longrightarrow> GetActiveLightCount fr \<le> j)
   \<and> GetActiveLightCount (fr\<lparr>ActiveLights := Array4 None None None None\<rparr>) = 0
   \<and> GetActiveLightCount (fr\<lparr>ActiveLights := Array4 (Some a) (Some b) None None\<rparr>) = 2
   \<and> GetActiveLightCount (fr\<lparr>ActiveLights := Array4 (Some a) None (Some c) None\<rparr>) = 1"
proof -
  have bound: "GetActiveLightCount fr \<le> MaxForwardLights"
    using GetActiveLightCount_loop_bounds [of 0 fr] by (simp add: GetActiveLightCount_def)
  have prefix: "\<forall>j < GetActiveLightCount fr. index4 (ActiveLights fr) j \<noteq> None"
    using GetActiveLightCount_loop_prefix [of 0 _ fr] by (simp add: GetActiveLightCount_def)
  have stop: "GetActiveLightCount fr < MaxForwardLights \<longrightarrow>
        index4 (ActiveLights fr) (GetActiveLightCount fr) = None"
    using GetActiveLightCount_loop_stop [of fr 0] by (simp add: GetActiveLightCount_def)
  have gap: "\<forall>j < MaxForwardLights. index4 (ActiveLights fr) j = None \<longrightarrow> GetActiveLightCount fr \<le> j"
    using prefix by (meson not_le_imp_less)
  have ex: "GetActiveLightCount (fr\<lparr>ActiveLights := Array4 None None None None\<rparr>) = 0"
    "GetActiveLightCount (fr\<lparr>ActiveLights := Array4 (Some a) (Some b) None None\<rparr>) = 2"
    "GetActiveLightCount (fr\<lparr>ActiveLights := Array4 (Some a) None (Some c) None\<rparr>) = 1"
    by (simp_all add: GetActiveLightCount_def GetActiveLightCount_loop_nil
        GetActiveLightCount_loop_next MaxForwardLights_def)
  have closed: "GetActiveLightCount fr =
      length (takeWhile (\<lambda>l. l \<noteq> None) (slots (ActiveLights fr)))"
    by (cases "ActiveLights fr")
       (simp add: GetActiveLightCount_def GetActiveLightCount_loop.simps MaxForwardLights_def)
  show ?thesis using closed bound prefix stop gap ex by (simp add: MaxForwardLights_def)
qed

text \<open>
  Claim C5 at the array \<open>[1, nil, 3, nil]\<close>: the count is 1, below the capacity,
  slot 1 is nil and slot 0 is not.
\<close>

theorem GetActiveLightCount_first_nil_witness:
  "GetActiveLightCount (NewForwardRenderer\<lparr>ActiveLights := Array4 (Some 1) None (Some 3) None\<rparr>) = 1
   \<and> GetActiveLightCount (NewForwardRenderer\<lparr>ActiveLights := Array4 (Some 1) None (Some 3) None\<rparr>)
       < MaxForwardLights
   \<and> index4 (ActiveLights (NewForwardRenderer\<lparr>ActiveLights := Array4 (Some 1) None (Some 3) None\<rparr>)) 1
       = None
   \<and> index4 (ActiveLights (NewForwardRenderer\<lparr>ActiveLights := Array4 (Some 1) None (Some 3) None\<rparr>)) 0
       \<noteq> None"
  using GetActiveLightCount_first_nil
          [where fr = "NewForwardRenderer\<lparr>ActiveLights := Array4 (Some 1) None (Some 3) None\<rparr>"
             and a = 1 and c = 3]
  by (simp add: MaxForwardLights_def)

text \<open>
  Claim C6. \<^verbatim>\<open>GetActiveShadowLightCount\<close> returns the index of the first slot that is nil
  or holds a light whose \<^verbatim>\<open>ShadowMap\<close> is nil, or 4 when there is none: the length of
  the longest prefix of slots that hold shadow-casting lights, at most 4, with no such
  slot before the result and such a slot at the result when it is below 4. It is 0 when
  slot 0 holds a light without a shadow map, whatever the other slots hold.
\<close>

theorem GetActiveShadowLightCount_first_unshadowed:
  "GetActiveShadowLightCount ls fr =
     length (takeWhile (\<lambda>l. \<not> lacks_shadow ls l) (slots (ActiveLights fr)))
   \<and> GetActiveShadowLightCount ls fr \<le> MaxForwardLights
   \<and> (\<forall>j < GetActiveShadowLightCount ls fr. \<not> lacks_shadow ls (index4 (ActiveLights fr) j))
   \<and> (GetActiveShadowLightCount ls fr < MaxForwardLights \<longrightarrow>
        lacks_shadow ls (index4 (ActiveLights fr) (GetActiveShadowLightCount ls fr)))
   \<and> (ShadowMap (ls p) = None \<longrightarrow>
        GetActiveShadowLightCount ls (fr\<lparr>ActiveLights := Array4 (Some p) b c d\<rparr>) = 0)
   \<and> MaxForwardLights = 4"
proof -
  have bound: "GetActiveShadowLightCount ls fr \<le> MaxForwardLights"
    using GetActiveShadowLightCount_loop_bounds [of 0 ls fr]
    by (simp add: GetActiveShadowLightCount_def)
  have prefix: "\<forall>j < GetActiveShadowLightCount ls fr. \<not> lacks_shadow ls (index4 (ActiveLights fr) j)"
    using GetActiveShadowLightCount_loop_prefix [of 0 _ ls fr]
    by (simp add: GetActiveShadowLightCount_def)
  have stop: "GetActiveShadowLightCount ls fr < MaxForwardLights \<longrightarrow>
        lacks_shadow ls (index4 (ActiveLights fr) (GetActiveShadowLightCount ls fr))"
    using GetActiveShadowLightCount_loop_stop [of ls fr 0]
    by (simp add: GetActiveShadowLightCount_def)
  have first: "ShadowMap (ls p) = None \<longrightarrow>
        GetActiveShadowLightCount ls (fr\<lparr>ActiveLights := Array4 (Some p) b c d\<rparr>) = 0"
    by (simp add: GetActiveShadowLightCount_def GetActiveShadowLightCount_loop_lacks
        lacks_shadow_def MaxForwardLights_def)
  have closed: "GetActiveShadowLightCount ls fr =
      length (takeWhile (\<lambda>l. \<not> lacks_shadow ls l) (slots (ActiveLights fr)))"
    by (cases "ActiveLights fr")
       (simp add: GetActiveShadowLightCount_def GetActiveShadowLightCount_loop.simps
          MaxForwardLights_def lacks_shadow_def split: option.splits)
  show ?thesis using closed bound prefix stop first by (simp add: MaxForwardLights_def)
qed

text \<open>
  Claim C6 at the array \<open>[1, 2, nil, nil]\<close>, where light 1 has no shadow map and
  light 2 has one: the count is 0.
\<close>

theorem GetActiveShadowLightCount_first_unshadowed_witness:
  "ShadowMap (lights_example 1) = None
   \<and> ShadowMap (lights_example 2) \<noteq> None
   \<and> GetActiveShadowLightCount lights_example
        (NewForwardRenderer\<lparr>ActiveLights := Array4 (Some 1) (Some 2) None None\<rparr>) = 0"
  using GetActiveShadowLightCount_first_unshadowed
          [where ls = lights_example and fr = NewForwardRenderer and p = 1
             and b = "Some 2" and c = None and d = None]
  by (simp add: lights_example_def NewLight_def shadow_light_def)

text \<open>
  Claim C10. The shadow-light count never exceeds the light count.
\<close>

theorem GetActiveShadowLightCount_le_GetActiveLightCount:
  "GetActiveShadowLightCount ls fr \<le> GetActiveLightCount fr"
  using shadow_loop_le_light_loop [of 0 ls fr]
  by (simp add: GetActiveShadowLightCount_def GetActiveLightCount_def)

text \<open>
  Claim C10 at the array \<open>[2, 1, 3, nil]\<close>, where light 1 has no shadow map: one
  shadow light of three lights.
\<close>

theorem GetActiveShadowLightCount_le_GetActiveLightCount_witness:
  "GetActiveShadowLightCount lights_example
        (NewForwardRenderer\<lparr>ActiveLights := Array4 (Some 2) (Some 1) (Some 3) None\<rparr>)
   \<le> GetActiveLightCount (NewForwardRenderer\<lparr>ActiveLights := Array4 (Some 2) (Some 1) (Some 3) None\<rparr>)
   \<and> GetActiveLightCount (NewForwardRenderer\<lparr>ActiveLights := Array4 (Some 2) (Some 1) (Some 3) None\<rparr>) = 3
   \<and> GetActiveShadowLightCount lights_example
        (NewForwardRenderer\<lparr>ActiveLights := Array4 (Some 2) (Some 1) (Some 3) None\<rparr>) = 1"
  using GetActiveShadowLightCount_le_GetActiveLightCount
          [of lights_example
              "NewForwardRenderer\<lparr>ActiveLights := Array4 (Some 2) (Some 1) (Some 3) None\<rparr>"]
  by (simp add: GetActiveShadowLightCount_def GetActiveLightCount_def
      GetActiveShadowLightCount_loop.simps GetActiveLightCount_loop.simps
      MaxForwardLights_def lights_example_def NewLight_def shadow_light_def)

subsection \<open>The shadow matrices\<close>

lemma UpdateShadowMapData_None: "ShadowMap l = None \<Longrightarrow> UpdateShadowMapData m l = l"
  by (simp add: UpdateShadowMapData_def)

lemma shadow_light_ShadowMap:
  "ShadowMap (shadow_light t) = Some ((NewShadowMap mgl_exact)
      \<lparr>Texture := t, TextureSize := 1024, ShadowMap.Direction := Vec3 0 0 (- 1)\<rparr>)"
  by (simp add: shadow_light_def)

text \<open>
  Claim C2. \<^verbatim>\<open>UpdateShadowMapData\<close> leaves a light without a shadow map as it is.
  Otherwise \<^verbatim>\<open>View\<close> becomes the look-at matrix from the light's position towards
  position plus shadow direction with the map's up vector, \<^verbatim>\<open>ViewProjMatrix\<close> becomes
  \<^verbatim>\<open>Projection.Mul4(View)\<close> and \<^verbatim>\<open>BiasedMatrix\<close> becomes
  \<^verbatim>\<open>shadowBiasMat.Mul4(ViewProjMatrix)\<close>; nothing else of the light changes. This holds
  for every implementation \<open>m\<close> of the vector library. The bias matrix sends the point
  \<open>(x, y, z, 1)\<close> to \<open>((x + 1) / 2, (y + 1) / 2, (z + 1) / 2, 1)\<close> in exact arithmetic:
  the interval from -1 to 1 onto the interval from 0 to 1.
\<close>

theorem UpdateShadowMapData_matrices:
  "(ShadowMap l = None \<longrightarrow> UpdateShadowMapData m l = l)
   \<and> (ShadowMap l = Some sm \<longrightarrow>
        UpdateShadowMapData m l =
          l\<lparr>ShadowMap := Some (sm
            \<lparr>View := LookAtV m (Position l) (Add m (Position l) (ShadowMap.Direction sm)) (Up sm),
             ViewProjMatrix := Mul4 m (Projection sm)
               (LookAtV m (Position l) (Add m (Position l) (ShadowMap.Direction sm)) (Up sm)),
             BiasedMatrix := Mul4 m shadowBiasMat (Mul4 m (Projection sm)
               (LookAtV m (Position l) (Add m (Position l) (ShadowMap.Direction sm)) (Up sm)))\<rparr>)\<rparr>)
   \<and> Mul4x1 shadowBiasMat (Vec4 x y z 1) = Vec4 ((x + 1) / 2) ((y + 1) / 2) ((z + 1) / 2) 1"
  by (simp add: UpdateShadowMapData_def Let_def Mul4x1_def shadowBiasMat_def field_simps)

text \<open>
  Claim C2 at a light without a shadow map and at the light \<open>shadow_light 7\<close>, with
  the exact-arithmetic instance: the view of the latter is the translation by
  \<open>(0, 0, -5)\<close>.
\<close>

theorem UpdateShadowMapData_matrices_witness:
  "ShadowMap NewLight = None
   \<and> UpdateShadowMapData mgl_exact NewLight = NewLight
   \<and> ShadowMap (shadow_light 7) = Some ((NewShadowMap mgl_exact)
        \<lparr>Texture := 7, TextureSize := 1024, ShadowMap.Direction := Vec3 0 0 (- 1)\<rparr>)
   \<and> map_option View (ShadowMap (UpdateShadowMapData mgl_exact (shadow_light 7))) =
        Some (Mat4_LookAtV (Vec3 0 0 5) (Vec3 0 0 4) (Vec3 0 1 0))
   \<and> Mat4_LookAtV (Vec3 0 0 5) (Vec3 0 0 4) (Vec3 0 1 0) =
        [1, 0, 0, 0, 0, 1, 0, 0, 0, 0, 1, 0, 0, 0, - 5, 1]"
proof -
  have n: "ShadowMap NewLight = None" by (simp add: NewLight_def)
  have s: "ShadowMap (shadow_light 7) = Some ((NewShadowMap mgl_exact)
        \<lparr>Texture := 7, TextureSize := 1024, ShadowMap.Direction := Vec3 0 0 (- 1)\<rparr>)"
    by (rule shadow_light_ShadowMap)
  have p: "Position (shadow_light 7) = Vec3 0 0 5" by (simp add: shadow_light_def)
  have v: "Mat4_LookAtV (Vec3 0 0 5) (Vec3 0 0 4) (Vec3 0 1 0) =
        [1, 0, 0, 0, 0, 1, 0, 0, 0, 0, 1, 0, 0, 0, - 5, 1]"
    by (simp add: Mat4_Mul4_def Translate3D_def upt_conv_Cons)
  from UpdateShadowMapData_matrices [where l = NewLight and m = mgl_exact] n
  have a: "UpdateShadowMapData mgl_exact NewLight = NewLight" by blast
  from UpdateShadowMapData_matrices [where l = "shadow_light 7" and m = mgl_exact] s
  have "map_option View (ShadowMap (UpdateShadowMapData mgl_exact (shadow_light 7))) =
        Some (Mat4_LookAtV (Vec3 0 0 5) (Vec3 0 0 4) (Vec3 0 1 0))"
    by (simp add: p mgl_exact_def NewShadowMap_def)
  with n a s v show ?thesis by blast
qed

subsection \<open>Rerunning the update\<close>









subsection \<open>Initialisation\<close>

text \<open>
  Claim C7, as amended. \<^verbatim>\<open>Init\<close> stores the given dimensions, which
  \<^verbatim>\<open>GetResolution\<close> then returns, and returns nil for every width and height: it has no
  check of its arguments and no failure.
\<close>

theorem Init_stores_dimensions:
  "Init w h fr = (fr\<lparr>width := w, height := h\<rparr>, None)
   \<and> GetResolution (fst (Init w h fr)) = (w, h)"
  by (simp add: Init_def GetResolution_def)

text \<open>
  Claim C7 as stated fails: width 0 and height -5 are not positive, and \<^verbatim>\<open>Init\<close>
  stores them and returns nil.
\<close>

theorem Init_nonpositive_counterexample:
  "sint (0 :: int32) \<le> 0 \<and> sint (- 5 :: int32) \<le> 0
   \<and> Init 0 (- 5) NewForwardRenderer = (NewForwardRenderer\<lparr>width := 0, height := - 5\<rparr>, None)"
  by (simp add: Init_def)

subsection \<open>Enabling a light that has no shadow map\<close>

text \<open>
  Claim C8, as amended. For a light without a shadow map,
  \<^verbatim>\<open>EnableShadowMappingLight\<close> first records the light as the renderer's current
  shadow-pass light and then panics on the nil \<^verbatim>\<open>ShadowMap\<close> while the arguments of
  \<^verbatim>\<open>gfx.FramebufferTexture2D\<close> are evaluated: the device receives no call and the lights
  are untouched, but the renderer is not as it was.
\<close>

theorem EnableShadowMappingLight_without_ShadowMap:
  "ShadowMap (lights w p) = None \<Longrightarrow>
   EnableShadowMappingLight m (Some p) w =
     Inl (NilPointerDereference, w\<lparr>renderer := (renderer w)\<lparr>currentShadowPassLight := Some p\<rparr>\<rparr>)"
  by (simp add: EnableShadowMappingLight_def UpdateShadowMapData_None Let_def)

text \<open>
  Claim C8, as amended, in the world \<open>world0\<close>, whose light 1 has no shadow map.
\<close>

theorem EnableShadowMappingLight_without_ShadowMap_witness:
  "ShadowMap (lights world0 1) = None
   \<and> EnableShadowMappingLight mgl_exact (Some 1) world0 =
     Inl (NilPointerDereference, world0\<lparr>renderer := (renderer world0)\<lparr>currentShadowPassLight := Some 1\<rparr>\<rparr>)
   \<and> gfx (snd (projl (EnableShadowMappingLight mgl_exact (Some 1) world0))) = device0"
proof -
  have h: "ShadowMap (lights world0 1) = None" by (simp add: world0_def NewLight_def)
  show ?thesis
    using h EnableShadowMappingLight_without_ShadowMap [OF h, of mgl_exact]
    by (simp add: world0_def)
qed

text \<open>
  Claim C8 as stated fails: the call does not reject the light and leave the state as
  it was. In \<open>world0\<close> no light is current; after the call on light 1, which has
  no shadow map, light 1 is the current shadow-pass light.
\<close>

theorem EnableShadowMappingLight_rejects_counterexample:
  "ShadowMap (lights world0 1) = None
   \<and> currentShadowPassLight (renderer world0) = None
   \<and> EnableShadowMappingLight mgl_exact (Some 1) world0 =
       Inl (NilPointerDereference,
            world0\<lparr>renderer := (renderer world0)\<lparr>currentShadowPassLight := Some 1\<rparr>\<rparr>)
   \<and> EnableShadowMappingLight mgl_exact (Some 1) world0 \<noteq> Inl (NilPointerDereference, world0)"
proof -
  have h: "ShadowMap (lights world0 1) = None" by (simp add: world0_def NewLight_def)
  have c: "currentShadowPassLight (renderer world0) = None"
    by (simp add: world0_def NewForwardRenderer_def)
  have "world0\<lparr>renderer := (renderer world0)\<lparr>currentShadowPassLight := Some 1\<rparr>\<rparr> \<noteq> world0"
  proof
    assume "world0\<lparr>renderer := (renderer world0)\<lparr>currentShadowPassLight := Some 1\<rparr>\<rparr> = world0"
    then have "currentShadowPassLight (renderer
        (world0\<lparr>renderer := (renderer world0)\<lparr>currentShadowPassLight := Some 1\<rparr>\<rparr>)) =
        currentShadowPassLight (renderer world0)" by simp
    with c show False by simp
  qed
  moreover have "EnableShadowMappingLight mgl_exact (Some 1) world0 =
       Inl (NilPointerDereference,
            world0\<lparr>renderer := (renderer world0)\<lparr>currentShadowPassLight := Some 1\<rparr>\<rparr>)"
    using h by (simp add: EnableShadowMappingLight_def UpdateShadowMapData_None Let_def)
  ultimately show ?thesis using h c by simp
qed

subsection \<open>The draw traversal\<close>

lemma DrawRenderable_range_fold:
  "DrawRenderable_range cs bnd perspective view w =
   fold (\<lambda>child. DrawRenderable child bnd perspective view) cs w"
  by (induction cs arbitrary: w) simp_all

lemma DrawRenderableWithShader_range_fold:
  "DrawRenderableWithShader_range cs shader bnd perspective view w =
   fold (\<lambda>child. DrawRenderableWithShader child shader bnd perspective view) cs w"
  by (induction cs arbitrary: w) simp_all

lemma DrawLines_range_fold:
  "DrawLines_range cs shader bnd perspective view w =
   fold (\<lambda>child. DrawLines child shader bnd perspective view) cs w"
  by (induction cs arbitrary: w) simp_all

lemma DrawRenderable_cases:
  "DrawRenderable r bnd perspective view w =
     (if \<not> IsVisible r then w
      else if IsGroup r then fold (\<lambda>child. DrawRenderable child bnd perspective view) (Children r) w
      else bindAndDraw r (Shader (Core r)) bnd perspective view TRIANGLES w)"
  by (cases r) (simp add: DrawRenderable_range_fold)

lemma DrawRenderableWithShader_cases:
  "DrawRenderableWithShader r shader bnd perspective view w =
     (if \<not> IsVisible r then w
      else if IsGroup r
        then fold (\<lambda>child. DrawRenderableWithShader child shader bnd perspective view) (Children r) w
      else bindAndDraw r shader bnd perspective view TRIANGLES w)"
  by (cases r) (simp add: DrawRenderableWithShader_range_fold)

lemma DrawLines_cases:
  "DrawLines r shader bnd perspective view w =
     (if \<not> IsVisible r then w
      else if IsGroup r
        then fold (\<lambda>child. DrawLines child shader bnd perspective view) (Children r) w
      else bindAndDraw r shader bnd perspective view LINES w)"
  by (cases r) (simp add: DrawLines_range_fold)

lemma issued_self: "issued d d = []"
  by (simp add: issued_def)

lemma issued_bindAndDraw:
  "issued (gfx w) (gfx (bindAndDraw r shader bnd perspective view mode w)) =
   [DrawCall r shader bnd perspective view mode]"
  by (simp add: issued_def bindAndDraw_def record_call_def)

text \<open>
  Claim C1. Each of the three traversals \<^verbatim>\<open>DrawRenderable\<close>,
  \<^verbatim>\<open>DrawRenderableWithShader\<close> and \<^verbatim>\<open>DrawLines\<close> returns the state unchanged on a node
  that is not visible, whatever its children are; on a visible group it is the fold of
  itself over the children in list order, with the same arguments, and adds nothing of
  its own; on a visible leaf it is one \<^verbatim>\<open>bindAndDraw\<close>, which issues exactly one draw
  call (with the node's own shader and triangles, the given shader and triangles, the
  given shader and lines). The tree of a visible group holding the visible leaf A and an
  invisible group holding a leaf B issues the one draw call of A, and any tree with an
  invisible root issues none.
\<close>

theorem draw_traversal_prunes_invisible:
  "(\<not> IsVisible r \<longrightarrow>
      DrawRenderable r bnd perspective view w = w
      \<and> DrawRenderableWithShader r shader bnd perspective view w = w
      \<and> DrawLines r shader bnd perspective view w = w)
   \<and> (IsVisible r \<and> IsGroup r \<longrightarrow>
      DrawRenderable r bnd perspective view w =
        fold (\<lambda>child. DrawRenderable child bnd perspective view) (Children r) w
      \<and> DrawRenderableWithShader r shader bnd perspective view w =
        fold (\<lambda>child. DrawRenderableWithShader child shader bnd perspective view) (Children r) w
      \<and> DrawLines r shader bnd perspective view w =
        fold (\<lambda>child. DrawLines child shader bnd perspective view) (Children r) w)
   \<and> (IsVisible r \<and> \<not> IsGroup r \<longrightarrow>
      DrawRenderable r bnd perspective view w =
        bindAndDraw r (Shader (Core r)) bnd perspective view TRIANGLES w
      \<and> issued (gfx w) (gfx (DrawRenderable r bnd perspective view w)) =
        [DrawCall r (Shader (Core r)) bnd perspective view TRIANGLES]
      \<and> DrawRenderableWithShader r shader bnd perspective view w =
        bindAndDraw r shader bnd perspective view TRIANGLES w
      \<and> issued (gfx w) (gfx (DrawRenderableWithShader r shader bnd perspective view w)) =
        [DrawCall r shader bnd perspective view TRIANGLES]
      \<and> DrawLines r shader bnd perspective view w =
        bindAndDraw r shader bnd perspective view LINES w
      \<and> issued (gfx w) (gfx (DrawLines r shader bnd perspective view w)) =
        [DrawCall r shader bnd perspective view LINES])
   \<and> issued (gfx w) (gfx (DrawRenderable
        (Renderable True True
           [Renderable True False [] coreA,
            Renderable False True [Renderable visB False [] coreB] coreH] coreG)
        bnd perspective view w)) =
      [DrawCall (Renderable True False [] coreA) (Shader coreA) bnd perspective view TRIANGLES]
   \<and> issued (gfx w) (gfx (DrawRenderableWithShader
        (Renderable True True
           [Renderable True False [] coreA,
            Renderable False True [Renderable visB False [] coreB] coreH] coreG)
        shader bnd perspective view w)) =
      [DrawCall (Renderable True False [] coreA) shader bnd perspective view TRIANGLES]
   \<and> issued (gfx w) (gfx (DrawLines
        (Renderable True True
           [Renderable True False [] coreA,
            Renderable False True [Renderable visB False [] coreB] coreH] coreG)
        shader bnd perspective view w)) =
      [DrawCall (Renderable True False [] coreA) shader bnd perspective view LINES]
   \<and> issued (gfx w) (gfx (DrawRenderable (Renderable False grp cs coreG)
        bnd perspective view w)) = []
   \<and> issued (gfx w) (gfx (DrawRenderableWithShader (Renderable False grp cs coreG)
        shader bnd perspective view w)) = []
   \<and> issued (gfx w) (gfx (DrawLines (Renderable False grp cs coreG)
        shader bnd perspective view w)) = []"
  by (simp add: DrawRenderable_cases DrawRenderableWithShader_cases DrawLines_cases
      issued_bindAndDraw issued_self del: DrawRenderable.simps DrawRenderableWithShader.simps DrawLines.simps)

text \<open>
  Claim C1 at the tree \<open>scene\<close> (a visible group), at its visible leaf A and at its
  invisible group: drawing \<open>scene\<close> on the empty log leaves exactly the draw call of
  A.
\<close>

theorem draw_traversal_prunes_invisible_witness:
  "IsVisible scene \<and> IsGroup scene
   \<and> DrawRenderable scene 0 Mat4_Ident4 Mat4_Ident4 world0 =
       fold (\<lambda>child. DrawRenderable child 0 Mat4_Ident4 Mat4_Ident4) (Children scene) world0
   \<and> IsVisible leafA \<and> \<not> IsGroup leafA
   \<and> issued (gfx world0) (gfx (DrawLines leafA 5 0 Mat4_Ident4 Mat4_Ident4 world0)) =
       [DrawCall leafA 5 0 Mat4_Ident4 Mat4_Ident4 LINES]
   \<and> \<not> IsVisible (Renderable False True [leafB] (RenderableCore 0))
   \<and> DrawRenderableWithShader (Renderable False True [leafB] (RenderableCore 0)) 5 0
         Mat4_Ident4 Mat4_Ident4 world0 = world0
   \<and> calls (gfx (DrawRenderable scene 0 Mat4_Ident4 Mat4_Ident4 world0)) =
       [DrawCall leafA 1 0 Mat4_Ident4 Mat4_Ident4 TRIANGLES]"
proof -
  have g: "IsVisible scene \<and> IsGroup scene" by (simp add: scene_def)
  have l: "IsVisible leafA \<and> \<not> IsGroup leafA" by (simp add: leafA_def)
  have h: "\<not> IsVisible (Renderable False True [leafB] (RenderableCore 0))" by simp
  note t = draw_traversal_prunes_invisible
  from g t [where r = scene and w = world0 and perspective = Mat4_Ident4
      and view = Mat4_Ident4 and bnd = 0]
  have 1: "DrawRenderable scene 0 Mat4_Ident4 Mat4_Ident4 world0 =
       fold (\<lambda>child. DrawRenderable child 0 Mat4_Ident4 Mat4_Ident4) (Children scene) world0"
    by blast
  from l t [where r = leafA and w = world0 and perspective = Mat4_Ident4
      and view = Mat4_Ident4 and bnd = 0 and shader = 5]
  have 2: "issued (gfx world0) (gfx (DrawLines leafA 5 0 Mat4_Ident4 Mat4_Ident4 world0)) =
       [DrawCall leafA 5 0 Mat4_Ident4 Mat4_Ident4 LINES]"
    by blast
  from h t [where r = "Renderable False True [leafB] (RenderableCore 0)" and w = world0
      and perspective = Mat4_Ident4 and view = Mat4_Ident4 and bnd = 0 and shader = 5]
  have 3: "DrawRenderableWithShader (Renderable False True [leafB] (RenderableCore 0)) 5 0
         Mat4_Ident4 Mat4_Ident4 world0 = world0"
    by blast
  from t [where w = world0 and perspective = Mat4_Ident4 and view = Mat4_Ident4 and bnd = 0
      and coreA = "RenderableCore 1" and coreB = "RenderableCore 2" and visB = True
      and coreH = "RenderableCore 0" and coreG = "RenderableCore 0"]
  have "issued (gfx world0) (gfx (DrawRenderable scene 0 Mat4_Ident4 Mat4_Ident4 world0)) =
       [DrawCall leafA 1 0 Mat4_Ident4 Mat4_Ident4 TRIANGLES]"
    by (simp add: scene_def leafA_def leafB_def)
  then have 4: "calls (gfx (DrawRenderable scene 0 Mat4_Ident4 Mat4_Ident4 world0)) =
       [DrawCall leafA 1 0 Mat4_Ident4 Mat4_Ident4 TRIANGLES]"
    by (simp add: issued_def world0_def device0_def)
  from g l h 1 2 3 4 show ?thesis by blast
qed

subsection \<open>Replacing a shadow map\<close>

lemmas gfx_defs = gfx_GenTexture_def gfx_GenFramebuffer_def gfx_DeleteTexture_def
  gfx_ActiveTexture_def gfx_BindTexture_def gfx_TexImage2D_def gfx_TexParameteri_def
  gfx_TexParameterfv_def gfx_BindFramebuffer_def gfx_DrawBuffers_def gfx_ReadBuffer_def
  gfx_Enable_def gfx_Disable_def gfx_PolygonOffset_def gfx_CullFace_def
  gfx_FramebufferTexture2D_def gfx_Clear_def gfx_Viewport_def record_call_def

lemma CreateShadowMap_device:
  "snd (CreateShadowMap m textureSize near far dir l d) =
     d\<lparr>calls := calls d
            @ (case ShadowMap l of None \<Rightarrow> [] | Some old \<Rightarrow> [DeleteTexture (Texture old)])
            @ texture_setup (handles d (generated d)) textureSize,
        generated := generated d + 1\<rparr>"
  by (simp add: CreateShadowMap_def Let_def gfx_defs Destroy_def texture_setup_def
      split: option.splits)

lemma CreateShadowMap_light:
  "fst (CreateShadowMap m textureSize near far dir l d) =
     l\<lparr>ShadowMap := Some ((NewShadowMap m)
          \<lparr>Near := near, Far := far,
           Projection := Frustum m (- 0.5) 0.5 (- 0.5) 0.5 near far,
           TextureSize := textureSize, ShadowMap.Direction := dir,
           Texture := handles d (generated d)\<rparr>)\<rparr>"
  by (simp add: CreateShadowMap_def Let_def gfx_defs Destroy_def split: option.splits)

lemma issued_CreateShadowMap:
  "issued d (snd (CreateShadowMap m textureSize near far dir l d)) =
     (case ShadowMap l of None \<Rightarrow> [] | Some old \<Rightarrow> [DeleteTexture (Texture old)])
     @ texture_setup (handles d (generated d)) textureSize"
  by (simp add: CreateShadowMap_device issued_def)

lemma texture_setup_filters:
  "filter is_DeleteTexture (texture_setup t n) = []"
  "filter is_GenTexture (texture_setup t n) = [GenTexture t]"
  "takeWhile (\<lambda>c. \<not> is_GenTexture c) (texture_setup t n) = []"
  by (simp_all add: texture_setup_def)

text \<open>
  Claim C3. On a light that owns a shadow map, \<^verbatim>\<open>CreateShadowMap\<close> issues
  \<^verbatim>\<open>DeleteTexture\<close> for the owned texture, then the allocation and set-up of the new one:
  that is the only \<^verbatim>\<open>DeleteTexture\<close>, it is all that precedes the \<^verbatim>\<open>GenTexture\<close>, and there
  is one \<^verbatim>\<open>GenTexture\<close>. Of two consecutive calls on the same light (with any
  arguments), the second releases exactly the texture the first allocated, the one the
  light owned in between; when the light had no shadow map before, that is the only
  release of both calls. The device may hand out any handles.
\<close>

theorem CreateShadowMap_releases_previous_texture:
  "(ShadowMap l = Some old \<longrightarrow>
      issued d (snd (CreateShadowMap m textureSize near far dir l d))
        = DeleteTexture (Texture old) # texture_setup (handles d (generated d)) textureSize
      \<and> filter is_DeleteTexture (issued d (snd (CreateShadowMap m textureSize near far dir l d)))
        = [DeleteTexture (Texture old)]
      \<and> takeWhile (\<lambda>c. \<not> is_GenTexture c)
           (issued d (snd (CreateShadowMap m textureSize near far dir l d)))
        = [DeleteTexture (Texture old)]
      \<and> filter is_GenTexture (issued d (snd (CreateShadowMap m textureSize near far dir l d)))
        = [GenTexture (handles d (generated d))])
   \<and> (let first = CreateShadowMap m textureSize near far dir l d;
           second = CreateShadowMap m' textureSize' near' far' dir' (fst first) (snd first)
       in map_option Texture (ShadowMap (fst first)) = Some (handles d (generated d))
          \<and> filter is_GenTexture (issued d (snd first)) = [GenTexture (handles d (generated d))]
          \<and> filter is_DeleteTexture (issued (snd first) (snd second))
              = [DeleteTexture (handles d (generated d))]
          \<and> (ShadowMap l = None \<longrightarrow>
                filter is_DeleteTexture (issued d (snd second))
                  = [DeleteTexture (handles d (generated d))]))"
proof -
  let ?first = "CreateShadowMap m textureSize near far dir l d"
  let ?second = "CreateShadowMap m' textureSize' near' far' dir' (fst ?first) (snd ?first)"
  let ?t = "handles d (generated d)"
  have once: "ShadowMap l = Some old \<longrightarrow>
      issued d (snd ?first) = DeleteTexture (Texture old) # texture_setup ?t textureSize
      \<and> filter is_DeleteTexture (issued d (snd ?first)) = [DeleteTexture (Texture old)]
      \<and> takeWhile (\<lambda>c. \<not> is_GenTexture c) (issued d (snd ?first)) = [DeleteTexture (Texture old)]
      \<and> filter is_GenTexture (issued d (snd ?first)) = [GenTexture ?t]"
    by (simp add: issued_CreateShadowMap texture_setup_filters)
  have owned: "map_option Texture (ShadowMap (fst ?first)) = Some ?t"
    by (simp add: CreateShadowMap_light)
  have gen: "filter is_GenTexture (issued d (snd ?first)) = [GenTexture ?t]"
    by (simp add: issued_CreateShadowMap texture_setup_filters split: option.splits)
  have second: "filter is_DeleteTexture (issued (snd ?first) (snd ?second)) = [DeleteTexture ?t]"
    by (simp add: issued_CreateShadowMap texture_setup_filters CreateShadowMap_light)
  have both: "ShadowMap l = None \<longrightarrow>
      filter is_DeleteTexture (issued d (snd ?second)) = [DeleteTexture ?t]"
    by (simp add: CreateShadowMap_device CreateShadowMap_light issued_def texture_setup_filters)
  show ?thesis unfolding Let_def using once owned gen second both by blast
qed

text \<open>
  Claim C3 at the light \<open>shadow_light 7\<close>, whose texture 7 is released, and at a new
  light, where the second call releases the texture 1 that the first one allocated.
\<close>

theorem CreateShadowMap_releases_previous_texture_witness:
  "ShadowMap (shadow_light 7) = Some ((NewShadowMap mgl_exact)
        \<lparr>Texture := 7, TextureSize := 1024, ShadowMap.Direction := Vec3 0 0 (- 1)\<rparr>)
   \<and> filter is_DeleteTexture (issued device0
        (snd (CreateShadowMap mgl_exact 512 1 100 (Vec3 0 (- 1) 0) (shadow_light 7) device0)))
       = [DeleteTexture 7]
   \<and> ShadowMap NewLight = None
   \<and> filter is_DeleteTexture (issued device0
        (snd (CreateShadowMap mgl_exact 256 1 50 (Vec3 0 (- 1) 0)
           (fst (CreateShadowMap mgl_exact 512 1 100 (Vec3 0 (- 1) 0) NewLight device0))
           (snd (CreateShadowMap mgl_exact 512 1 100 (Vec3 0 (- 1) 0) NewLight device0)))))
       = [DeleteTexture 1]"
proof -
  have s: "ShadowMap (shadow_light 7) = Some ((NewShadowMap mgl_exact)
        \<lparr>Texture := 7, TextureSize := 1024, ShadowMap.Direction := Vec3 0 0 (- 1)\<rparr>)"
    by (rule shadow_light_ShadowMap)
  have n: "ShadowMap NewLight = None" by (simp add: NewLight_def)
  note t = CreateShadowMap_releases_previous_texture
  from t [where l = "shadow_light 7" and d = device0 and m = mgl_exact and textureSize = 512
      and near = 1 and far = 100 and dir = "Vec3 0 (- 1) 0"
      and old = "(NewShadowMap mgl_exact)
        \<lparr>Texture := 7, TextureSize := 1024, ShadowMap.Direction := Vec3 0 0 (- 1)\<rparr>"] s
  have "filter is_DeleteTexture (issued device0
        (snd (CreateShadowMap mgl_exact 512 1 100 (Vec3 0 (- 1) 0) (shadow_light 7) device0)))
       = [DeleteTexture (Texture ((NewShadowMap mgl_exact)
        \<lparr>Texture := 7, TextureSize := 1024, ShadowMap.Direction := Vec3 0 0 (- 1)\<rparr>))]"
    by blast
  then have 1: "filter is_DeleteTexture (issued device0
        (snd (CreateShadowMap mgl_exact 512 1 100 (Vec3 0 (- 1) 0) (shadow_light 7) device0)))
       = [DeleteTexture 7]"
    by simp
  from n t [where l = NewLight and d = device0 and m = mgl_exact and textureSize = 512
      and near = 1 and far = 100 and dir = "Vec3 0 (- 1) 0" and m' = mgl_exact
      and textureSize' = 256 and near' = 1 and far' = 50 and dir' = "Vec3 0 (- 1) 0"]
  have 2: "filter is_DeleteTexture (issued device0
        (snd (CreateShadowMap mgl_exact 256 1 50 (Vec3 0 (- 1) 0)
           (fst (CreateShadowMap mgl_exact 512 1 100 (Vec3 0 (- 1) 0) NewLight device0))
           (snd (CreateShadowMap mgl_exact 512 1 100 (Vec3 0 (- 1) 0) NewLight device0)))))
       = [DeleteTexture 1]"
    by (simp add: Let_def device0_def)
  from s n 1 2 show ?thesis by blast
qed

subsection \<open>The shadow pass\<close>

lemma appends_draws_refl: "appends_draws w w"
  unfolding appends_draws_def by (rule exI [of _ "[]"]) simp

lemma appends_draws_trans:
  assumes "appends_draws w w'" and "appends_draws w' w''"
  shows "appends_draws w w''"
proof -
  from assms(1) obtain ds where ds: "list_all is_DrawCall ds"
    "w' = w\<lparr>gfx := (gfx w)\<lparr>calls := calls (gfx w) @ ds\<rparr>\<rparr>"
    unfolding appends_draws_def by blast
  from assms(2) obtain es where es: "list_all is_DrawCall es"
    "w'' = w'\<lparr>gfx := (gfx w')\<lparr>calls := calls (gfx w') @ es\<rparr>\<rparr>"
    unfolding appends_draws_def by blast
  have "w'' = w\<lparr>gfx := (gfx w)\<lparr>calls := calls (gfx w) @ (ds @ es)\<rparr>\<rparr>"
    using ds(2) es(2) by simp
  moreover have "list_all is_DrawCall (ds @ es)" using ds(1) es(1) by simp
  ultimately show ?thesis unfolding appends_draws_def by blast
qed

lemma appends_draws_bindAndDraw:
  "appends_draws w (bindAndDraw r shader binder perspective view mode w)"
  unfolding appends_draws_def
  by (rule exI [of _ "[DrawCall r shader binder perspective view mode]"])
     (simp add: bindAndDraw_def record_call_def)

lemma DrawRenderable_appends_draws:
  "appends_draws w (DrawRenderable r bnd perspective view w)"
  "appends_draws w (DrawRenderable_range cs bnd perspective view w)"
proof (induction r bnd perspective view w and cs bnd perspective view w
       rule: DrawRenderable_DrawRenderable_range.induct)
  case (1 visible grp children core bnd perspective view w)
  then show ?case by (simp add: appends_draws_refl appends_draws_bindAndDraw)
next
  case (2 bnd perspective view w)
  show ?case by (simp add: appends_draws_refl)
next
  case (3 child rest bnd perspective view w)
  then show ?case using appends_draws_trans by simp
qed

lemma DrawRenderableWithShader_appends_draws:
  "appends_draws w (DrawRenderableWithShader r shader bnd perspective view w)"
  "appends_draws w (DrawRenderableWithShader_range cs shader bnd perspective view w)"
proof (induction r shader bnd perspective view w and cs shader bnd perspective view w
       rule: DrawRenderableWithShader_DrawRenderableWithShader_range.induct)
  case (1 visible grp children core shader bnd perspective view w)
  then show ?case by (simp add: appends_draws_refl appends_draws_bindAndDraw)
next
  case (2 shader bnd perspective view w)
  show ?case by (simp add: appends_draws_refl)
next
  case (3 child rest shader bnd perspective view w)
  then show ?case using appends_draws_trans by simp
qed

lemma DrawLines_appends_draws:
  "appends_draws w (DrawLines r shader bnd perspective view w)"
  "appends_draws w (DrawLines_range cs shader bnd perspective view w)"
proof (induction r shader bnd perspective view w and cs shader bnd perspective view w
       rule: DrawLines_DrawLines_range.induct)
  case (1 visible grp children core shader bnd perspective view w)
  then show ?case by (simp add: appends_draws_refl appends_draws_bindAndDraw)
next
  case (2 shader bnd perspective view w)
  show ?case by (simp add: appends_draws_refl)
next
  case (3 child rest shader bnd perspective view w)
  then show ?case using appends_draws_trans by simp
qed

lemma run_draw_appends_draws: "appends_draws w (run_draw dr w)"
  by (cases dr)
     (simp_all add: DrawRenderable_appends_draws DrawRenderableWithShader_appends_draws
        DrawLines_appends_draws)

lemma fold_run_draw_appends_draws: "appends_draws w (fold run_draw drs w)"
proof (induction drs arbitrary: w)
  case Nil
  show ?case by (simp add: appends_draws_refl)
next
  case (Cons dr drs)
  have "appends_draws w (run_draw dr w)" by (rule run_draw_appends_draws)
  moreover have "appends_draws (run_draw dr w) (fold run_draw drs (run_draw dr w))"
    by (rule Cons.IH)
  ultimately show ?case using appends_draws_trans by simp
qed

lemma UpdateShadowMapData_keeps_texture:
  "ShadowMap l = Some sm \<Longrightarrow>
   \<exists>sm'. ShadowMap (UpdateShadowMapData m l) = Some sm'
         \<and> Texture sm' = Texture sm \<and> TextureSize sm' = TextureSize sm"
  by (simp add: UpdateShadowMapData_def Let_def)

lemma EnableShadowMappingLight_Some:
  "ShadowMap (lights w p) = Some sm \<Longrightarrow>
   EnableShadowMappingLight m (Some p) w =
     Inr (w\<lparr>renderer := (renderer w)\<lparr>currentShadowPassLight := Some p\<rparr>,
            lights := (lights w)(p := UpdateShadowMapData m (lights w p)),
            gfx := (gfx w)\<lparr>calls := calls (gfx w) @
              [FramebufferTexture2D FRAMEBUFFER DEPTH_ATTACHMENT TEXTURE_2D (Texture sm) 0,
               Clear DEPTH_BUFFER_BIT,
               Viewport 0 0 (TextureSize sm) (TextureSize sm)]\<rparr>\<rparr>)"
  using UpdateShadowMapData_keeps_texture [of "lights w p" sm m]
  by (auto simp: EnableShadowMappingLight_def Let_def gfx_defs)

lemma StartShadowMapping_effect:
  "StartShadowMapping w =
     w\<lparr>renderer := (renderer w)\<lparr>currentShadowPassLight := None\<rparr>,
       gfx := (gfx w)\<lparr>calls := calls (gfx w) @
                [BindFramebuffer FRAMEBUFFER (shadowFBO (renderer w)),
                 Enable POLYGON_OFFSET_FILL, PolygonOffset 4 4, Enable CULL_FACE, CullFace FRONT],
              framebuffer_binding := shadowFBO (renderer w),
              enabled := (enabled (gfx w))(POLYGON_OFFSET_FILL := True, CULL_FACE := True),
              cull_face_mode := FRONT\<rparr>\<rparr>"
  by (simp add: StartShadowMapping_def Let_def gfx_defs)

lemma EndShadowMapping_effect:
  "EndShadowMapping w =
     w\<lparr>renderer := (renderer w)\<lparr>currentShadowPassLight := None\<rparr>,
       gfx := (gfx w)\<lparr>calls := calls (gfx w) @
                [CullFace BACK, Disable CULL_FACE, Disable POLYGON_OFFSET_FILL,
                 BindFramebuffer FRAMEBUFFER 0],
              cull_face_mode := BACK,
              enabled := (enabled (gfx w))(CULL_FACE := False, POLYGON_OFFSET_FILL := False),
              framebuffer_binding := 0\<rparr>\<rparr>"
  by (simp add: EndShadowMapping_def Let_def gfx_defs)

lemma appends_draws_fields:
  assumes "appends_draws w w'"
  obtains ds where "list_all is_DrawCall ds" and "calls (gfx w') = calls (gfx w) @ ds"
    and "lights w' = lights w" and "renderer w' = renderer w"
proof -
  from assms obtain ds where ds: "list_all is_DrawCall ds"
    "w' = w\<lparr>gfx := (gfx w)\<lparr>calls := calls (gfx w) @ ds\<rparr>\<rparr>"
    unfolding appends_draws_def by blast
  from ds(2) have "calls (gfx w') = calls (gfx w) @ ds" "lights w' = lights w"
    "renderer w' = renderer w" by simp_all
  with ds(1) show ?thesis using that by blast
qed

lemma draw_calls_attach_nothing:
  "list_all is_DrawCall ds \<Longrightarrow> filter is_FramebufferTexture2D ds = []"
proof (induction ds)
  case Nil
  show ?case by simp
next
  case (Cons c ds)
  then show ?case by (cases c) simp_all
qed

text \<open>
  Claim C4. For lights \<open>p1\<close> and \<open>p2\<close> that have shadow maps (they may be the same
  light) and any draws in between, the sequence \<^verbatim>\<open>StartShadowMapping\<close>,
  \<^verbatim>\<open>EnableShadowMappingLight(p1)\<close>, draws, \<^verbatim>\<open>EnableShadowMappingLight(p2)\<close>, draws,
  \<^verbatim>\<open>EndShadowMapping\<close> runs to its end without a panic and leaves the culling direction
  at \<^verbatim>\<open>BACK\<close>, the polygon offset disabled, the framebuffer binding at 0 and no current
  shadow light. The calls it issues are the five of the start, the attachment of the
  first light's texture with its clear and viewport, draw calls, the same for the
  second light, draw calls, and the four of the end: each light's texture is attached
  once, in call order.
\<close>

theorem shadow_pass_restores_state:
  assumes "ShadowMap (lights w p1) = Some sm1" and "ShadowMap (lights w p2) = Some sm2"
  shows "\<exists>w' ds1 ds2.
      shadow_pass m (Some p1) draws1 (Some p2) draws2 w = Inr w'
      \<and> cull_face_mode (gfx w') = BACK
      \<and> \<not> enabled (gfx w') POLYGON_OFFSET_FILL
      \<and> framebuffer_binding (gfx w') = 0
      \<and> currentShadowPassLight (renderer w') = None
      \<and> list_all is_DrawCall ds1 \<and> list_all is_DrawCall ds2
      \<and> issued (gfx w) (gfx w') =
          [BindFramebuffer FRAMEBUFFER (shadowFBO (renderer w)), Enable POLYGON_OFFSET_FILL,
           PolygonOffset 4 4, Enable CULL_FACE, CullFace FRONT]
          @ [FramebufferTexture2D FRAMEBUFFER DEPTH_ATTACHMENT TEXTURE_2D (Texture sm1) 0,
             Clear DEPTH_BUFFER_BIT, Viewport 0 0 (TextureSize sm1) (TextureSize sm1)]
          @ ds1
          @ [FramebufferTexture2D FRAMEBUFFER DEPTH_ATTACHMENT TEXTURE_2D (Texture sm2) 0,
             Clear DEPTH_BUFFER_BIT, Viewport 0 0 (TextureSize sm2) (TextureSize sm2)]
          @ ds2
          @ [CullFace BACK, Disable CULL_FACE, Disable POLYGON_OFFSET_FILL,
             BindFramebuffer FRAMEBUFFER 0]
      \<and> filter is_FramebufferTexture2D (issued (gfx w) (gfx w')) =
          [FramebufferTexture2D FRAMEBUFFER DEPTH_ATTACHMENT TEXTURE_2D (Texture sm1) 0,
           FramebufferTexture2D FRAMEBUFFER DEPTH_ATTACHMENT TEXTURE_2D (Texture sm2) 0]"
proof -
  define w0 where "w0 = StartShadowMapping w"
  have w0: "lights w0 = lights w"
    "calls (gfx w0) = calls (gfx w) @
       [BindFramebuffer FRAMEBUFFER (shadowFBO (renderer w)), Enable POLYGON_OFFSET_FILL,
        PolygonOffset 4 4, Enable CULL_FACE, CullFace FRONT]"
    by (simp_all add: w0_def StartShadowMapping_effect)
  from assms(1) w0(1) have m1: "ShadowMap (lights w0 p1) = Some sm1" by simp
  define w1 where "w1 = w0\<lparr>renderer := (renderer w0)\<lparr>currentShadowPassLight := Some p1\<rparr>,
            lights := (lights w0)(p1 := UpdateShadowMapData m (lights w0 p1)),
            gfx := (gfx w0)\<lparr>calls := calls (gfx w0) @
              [FramebufferTexture2D FRAMEBUFFER DEPTH_ATTACHMENT TEXTURE_2D (Texture sm1) 0,
               Clear DEPTH_BUFFER_BIT,
               Viewport 0 0 (TextureSize sm1) (TextureSize sm1)]\<rparr>\<rparr>"
  have e1: "EnableShadowMappingLight m (Some p1) w0 = Inr w1"
    unfolding w1_def by (rule EnableShadowMappingLight_Some [OF m1])
  have w1: "lights w1 = (lights w)(p1 := UpdateShadowMapData m (lights w p1))"
    "calls (gfx w1) = calls (gfx w0) @
       [FramebufferTexture2D FRAMEBUFFER DEPTH_ATTACHMENT TEXTURE_2D (Texture sm1) 0,
        Clear DEPTH_BUFFER_BIT, Viewport 0 0 (TextureSize sm1) (TextureSize sm1)]"
    by (simp_all add: w1_def w0(1))
  define w2 where "w2 = fold run_draw draws1 w1"
  have "appends_draws w1 w2" unfolding w2_def by (rule fold_run_draw_appends_draws)
  then obtain ds1 where ds1: "list_all is_DrawCall ds1"
    "calls (gfx w2) = calls (gfx w1) @ ds1" "lights w2 = lights w1"
    by (rule appends_draws_fields)
  obtain sm2' where m2: "ShadowMap (lights w2 p2) = Some sm2'"
    "Texture sm2' = Texture sm2" "TextureSize sm2' = TextureSize sm2"
  proof (cases "p2 = p1")
    case True
    with assms have "ShadowMap (lights w p1) = Some sm2" by simp
    from UpdateShadowMapData_keeps_texture [OF this, of m] True ds1(3) w1(1)
    show ?thesis using that by auto
  next
    case False
    with ds1(3) w1(1) assms(2) show ?thesis using that by simp
  qed
  define w3 where "w3 = w2\<lparr>renderer := (renderer w2)\<lparr>currentShadowPassLight := Some p2\<rparr>,
            lights := (lights w2)(p2 := UpdateShadowMapData m (lights w2 p2)),
            gfx := (gfx w2)\<lparr>calls := calls (gfx w2) @
              [FramebufferTexture2D FRAMEBUFFER DEPTH_ATTACHMENT TEXTURE_2D (Texture sm2') 0,
               Clear DEPTH_BUFFER_BIT,
               Viewport 0 0 (TextureSize sm2') (TextureSize sm2')]\<rparr>\<rparr>"
  have e2: "EnableShadowMappingLight m (Some p2) w2 = Inr w3"
    unfolding w3_def by (rule EnableShadowMappingLight_Some [OF m2(1)])
  have w3: "calls (gfx w3) = calls (gfx w2) @
       [FramebufferTexture2D FRAMEBUFFER DEPTH_ATTACHMENT TEXTURE_2D (Texture sm2) 0,
        Clear DEPTH_BUFFER_BIT, Viewport 0 0 (TextureSize sm2) (TextureSize sm2)]"
    by (simp add: w3_def m2)
  define w4 where "w4 = fold run_draw draws2 w3"
  have "appends_draws w3 w4" unfolding w4_def by (rule fold_run_draw_appends_draws)
  then obtain ds2 where ds2: "list_all is_DrawCall ds2"
    "calls (gfx w4) = calls (gfx w3) @ ds2"
    by (rule appends_draws_fields)
  define w' where "w' = EndShadowMapping w4"
  have run: "shadow_pass m (Some p1) draws1 (Some p2) draws2 w = Inr w'"
    using e1 e2 by (simp add: shadow_pass_def w0_def w2_def w4_def w'_def)
  have fields: "cull_face_mode (gfx w') = BACK" "\<not> enabled (gfx w') POLYGON_OFFSET_FILL"
    "framebuffer_binding (gfx w') = 0" "currentShadowPassLight (renderer w') = None"
    by (simp_all add: w'_def EndShadowMapping_effect)
  have "calls (gfx w') = calls (gfx w4) @
      [CullFace BACK, Disable CULL_FACE, Disable POLYGON_OFFSET_FILL,
       BindFramebuffer FRAMEBUFFER 0]"
    by (simp add: w'_def EndShadowMapping_effect)
  then have log: "issued (gfx w) (gfx w') =
          [BindFramebuffer FRAMEBUFFER (shadowFBO (renderer w)), Enable POLYGON_OFFSET_FILL,
           PolygonOffset 4 4, Enable CULL_FACE, CullFace FRONT]
          @ [FramebufferTexture2D FRAMEBUFFER DEPTH_ATTACHMENT TEXTURE_2D (Texture sm1) 0,
             Clear DEPTH_BUFFER_BIT, Viewport 0 0 (TextureSize sm1) (TextureSize sm1)]
          @ ds1
          @ [FramebufferTexture2D FRAMEBUFFER DEPTH_ATTACHMENT TEXTURE_2D (Texture sm2) 0,
             Clear DEPTH_BUFFER_BIT, Viewport 0 0 (TextureSize sm2) (TextureSize sm2)]
          @ ds2
          @ [CullFace BACK, Disable CULL_FACE, Disable POLYGON_OFFSET_FILL,
             BindFramebuffer FRAMEBUFFER 0]"
    by (simp add: issued_def ds2(2) w3 ds1(2) w1(2) w0(2))
  have attach: "filter is_FramebufferTexture2D (issued (gfx w) (gfx w')) =
          [FramebufferTexture2D FRAMEBUFFER DEPTH_ATTACHMENT TEXTURE_2D (Texture sm1) 0,
           FramebufferTexture2D FRAMEBUFFER DEPTH_ATTACHMENT TEXTURE_2D (Texture sm2) 0]"
    by (simp add: log draw_calls_attach_nothing [OF ds1(1)] draw_calls_attach_nothing [OF ds2(1)])
  from run fields ds1(1) ds2(1) log attach show ?thesis by blast
qed

text \<open>
  Claim C4 in the world \<open>world_example\<close>, for the lights 2 and 3 with the textures 7
  and 9, drawing the tree \<open>scene\<close> after each.
\<close>

theorem shadow_pass_restores_state_witness:
  "ShadowMap (lights world_example 2) = Some ((NewShadowMap mgl_exact)
        \<lparr>Texture := 7, TextureSize := 1024, ShadowMap.Direction := Vec3 0 0 (- 1)\<rparr>)
   \<and> ShadowMap (lights world_example 3) = Some ((NewShadowMap mgl_exact)
        \<lparr>Texture := 9, TextureSize := 1024, ShadowMap.Direction := Vec3 0 0 (- 1)\<rparr>)
   \<and> (\<exists>w'. shadow_pass mgl_exact (Some 2) [DrawWithShader scene 5 0 Mat4_Ident4 Mat4_Ident4]
              (Some 3) [Lines scene 5 0 Mat4_Ident4 Mat4_Ident4] world_example = Inr w'
          \<and> cull_face_mode (gfx w') = BACK
          \<and> \<not> enabled (gfx w') POLYGON_OFFSET_FILL
          \<and> framebuffer_binding (gfx w') = 0
          \<and> currentShadowPassLight (renderer w') = None
          \<and> filter is_FramebufferTexture2D (issued (gfx world_example) (gfx w')) =
              [FramebufferTexture2D FRAMEBUFFER DEPTH_ATTACHMENT TEXTURE_2D 7 0,
               FramebufferTexture2D FRAMEBUFFER DEPTH_ATTACHMENT TEXTURE_2D 9 0])"
proof -
  have a: "ShadowMap (lights world_example 2) = Some ((NewShadowMap mgl_exact)
        \<lparr>Texture := 7, TextureSize := 1024, ShadowMap.Direction := Vec3 0 0 (- 1)\<rparr>)"
    by (simp add: world_example_def lights_example_def shadow_light_ShadowMap)
  have b: "ShadowMap (lights world_example 3) = Some ((NewShadowMap mgl_exact)
        \<lparr>Texture := 9, TextureSize := 1024, ShadowMap.Direction := Vec3 0 0 (- 1)\<rparr>)"
    by (simp add: world_example_def lights_example_def shadow_light_ShadowMap)
  from shadow_pass_restores_state [OF a b, of mgl_exact
      "[DrawWithShader scene 5 0 Mat4_Ident4 Mat4_Ident4]"
      "[Lines scene 5 0 Mat4_Ident4 Mat4_Ident4]"]
  have "\<exists>w'. shadow_pass mgl_exact (Some 2) [DrawWithShader scene 5 0 Mat4_Ident4 Mat4_Ident4]
              (Some 3) [Lines scene 5 0 Mat4_Ident4 Mat4_Ident4] world_example = Inr w'
          \<and> cull_face_mode (gfx w') = BACK
          \<and> \<not> enabled (gfx w') POLYGON_OFFSET_FILL
          \<and> framebuffer_binding (gfx w') = 0
          \<and> currentShadowPassLight (renderer w') = None
          \<and> filter is_FramebufferTexture2D (issued (gfx world_example) (gfx w')) =
              [FramebufferTexture2D FRAMEBUFFER DEPTH_ATTACHMENT TEXTURE_2D 7 0,
               FramebufferTexture2D FRAMEBUFFER DEPTH_ATTACHMENT TEXTURE_2D 9 0]"
    by auto
  with a b show ?thesis by blast
qed

end
